theory Spec2Isabelle
  imports Main
begin

section \<open>Data model (coder-client.ts, schemas.ts)\<close>

text \<open>
  The zod schemas of coder-client.ts describe the JSON documents of the Coder API. A value
  of one of the records below stands for a document that passed its schema; the formats
  that the schemas check on single fields (uuid, email) are not modelled.
\<close>

record CoderSDKUser =
  user_id :: string
  username :: string
  email :: string
  organization_ids :: "string list"
  github_com_user_id :: "int option"

record CoderSDKTemplate =
  template_id :: string
  template_name :: string
  description :: "string option"
  organization_id :: string
  active_version_id :: string

record CoderSDKTemplateVersionPreset =
  preset_ID :: string
  preset_Name :: string
  preset_Default :: bool

datatype ExperimentalCoderSDKTaskStatus =
  Pending | Initializing | Active | Paused | Unknown | Error

datatype ExperimentalCoderSDKTaskState = Idle | Working | Complete | Failed

record ExperimentalCoderSDKTask =
  task_id :: string
  task_name :: string
  owner_id :: string
  task_template_id :: string
  created_at :: string
  updated_at :: string
  status :: ExperimentalCoderSDKTaskStatus
  current_state :: "ExperimentalCoderSDKTaskState option"

record ExperimentalCoderSDKCreateTaskRequest =
  req_name :: string
  req_template_version_id :: string
  req_template_version_preset_id :: "string option"
  req_input :: string

text \<open>
  ActionInputs (schemas.ts), after the schema's defaults are filled in. The two optional
  identity fields are options; \<open>coderTemplatePreset\<close> is optional as well.
\<close>

record ActionInputs =
  coderTaskPrompt :: string
  coderToken :: string
  coderURL :: string
  coderTemplateName :: string
  githubIssueURL :: string
  githubToken :: string
  coderOrganization :: string
  coderTaskNamePrefix :: string
  coderTemplatePreset :: "string option"
  commentOnIssueInput :: bool
  githubUserID :: "int option"
  coderUsername :: "string option"

record ActionOutputs =
  out_coderUsername :: string
  out_taskName :: string
  out_taskUrl :: string
  out_taskCreated :: bool

text \<open>
  The values a JavaScript \<open>throw\<close> carries in this program. \<open>CoderAPIError\<close> has
  the message, the status code and the optional \<open>response\<close> field, which the code fills
  with the raw body text (\<open>request\<close>) or with the task (\<open>waitForTaskActive\<close>).
\<close>

datatype api_response = NoResponse | BodyText string | TaskValue ExperimentalCoderSDKTask

datatype error =
    CoderAPIError string nat api_response
  | ThrownString string
  | PlainError string
  | ZodError
  | SyntaxError
  | TypeError
  | RequestError

section \<open>Strings\<close>

text \<open>Template literals print a number in decimal.\<close>

definition digit_char :: "nat \<Rightarrow> char" where
  "digit_char d = ''0123456789'' ! d"

fun show_nat :: "nat \<Rightarrow> string" where
  "show_nat n = (if n < 10 then [digit_char n] else show_nat (n div 10) @ [digit_char (n mod 10)])"

declare show_nat.simps [simp del]

definition show_int :: "int \<Rightarrow> string" where
  "show_int i = (if i < 0 then CHR ''-'' # show_nat (nat (- i)) else show_nat (nat i))"

text \<open>\<open>String.prototype.startsWith\<close>.\<close>

definition startsWith :: "string \<Rightarrow> string \<Rightarrow> bool" where
  "startsWith s p = (take (length p) s = p)"

section \<open>Task URL (action.ts, generateTaskUrl)\<close>

text \<open>
  \<open>coderURL.split(/[?#]/)[0]\<close> is the text before the first question mark or hash;
  \<open>.replace(/\/$/, "")\<close> removes one slash at the very end, when there is one.
\<close>

definition is_query_or_fragment_mark :: "char \<Rightarrow> bool" where
  "is_query_or_fragment_mark c = (c = CHR ''?'' \<or> c = CHR ''#'')"

definition before_query_or_fragment :: "string \<Rightarrow> string" where
  "before_query_or_fragment s = takeWhile (\<lambda>c. \<not> is_query_or_fragment_mark c) s"

definition strip_trailing_slash :: "string \<Rightarrow> string" where
  "strip_trailing_slash s = (if s \<noteq> [] \<and> last s = CHR ''/'' then butlast s else s)"

definition baseURL :: "string \<Rightarrow> string" where
  "baseURL url = strip_trailing_slash (before_query_or_fragment url)"

definition generateTaskUrl :: "ActionInputs \<Rightarrow> string \<Rightarrow> string \<Rightarrow> string" where
  "generateTaskUrl inputs coder_username taskID =
     baseURL (coderURL inputs) @ ''/tasks/'' @ coder_username @ ''/'' @ taskID"

section \<open>Preset selection (action.ts, run, lines 210-232)\<close>

text \<open>The two \<open>for ... of\<close> loops with \<open>break\<close>: the first element that passes the test.\<close>

fun first_default :: "CoderSDKTemplateVersionPreset list \<Rightarrow> string option" where
  "first_default [] = None"
| "first_default (preset # rest) =
     (if preset_Default preset then Some (preset_ID preset) else first_default rest)"

fun first_named :: "string \<Rightarrow> CoderSDKTemplateVersionPreset list \<Rightarrow> string option" where
  "first_named requested [] = None"
| "first_named requested (preset # rest) =
     (if preset_Name preset = requested then Some (preset_ID preset)
      else first_named requested rest)"

text \<open>JavaScript truthiness of \<open>string | undefined\<close>: defined and not empty.\<close>

definition truthy :: "string option \<Rightarrow> bool" where
  "truthy s = (case s of None \<Rightarrow> False | Some v \<Rightarrow> v \<noteq> [])"

text \<open>A \<open>string | undefined\<close> inside a template literal.\<close>

definition template_text :: "string option \<Rightarrow> string" where
  "template_text s = (case s of None \<Rightarrow> ''undefined'' | Some v \<Rightarrow> v)"

definition selectPreset ::
  "string option \<Rightarrow> CoderSDKTemplateVersionPreset list \<Rightarrow> error + string option" where
  "selectPreset requested presets =
     (let presetID =
            (if \<not> truthy requested then first_default presets
             else first_named (template_text requested) presets)
      in if truthy requested \<and> \<not> truthy presetID
         then Inl (PlainError (''Preset '' @ template_text requested @ '' not found''))
         else Inr presetID)"

section \<open>The outside world: remote calls, their trace and the clock\<close>

text \<open>
  The requests of coder-client.ts, by endpoint: the URL and the JSON encoding of the body
  are not modelled.
    \<^item> \<open>GetUsersByGitHubId g\<close>: GET /api/v2/users?q=github_com_user_id:g
    \<^item> \<open>GetTemplate org name\<close>: GET /api/v2/organizations/org/templates/name
    \<^item> \<open>GetTemplateVersionPresets v\<close>: GET /api/v2/templateversions/v/presets
    \<^item> \<open>GetTasks owner\<close>: GET /api/experimental/tasks?q=owner:owner
    \<^item> \<open>GetTaskById owner taskId\<close>: GET /api/experimental/tasks/owner/taskId
    \<^item> \<open>PostTask owner params\<close>: POST /api/experimental/tasks/owner
    \<^item> \<open>PostTaskSend owner taskId input\<close>: POST /api/experimental/tasks/owner/taskId/send
\<close>

datatype endpoint =
    GetUsersByGitHubId int
  | GetTemplate string string
  | GetTemplateVersionPresets string
  | GetTasks string
  | GetTaskById string string
  | PostTask string ExperimentalCoderSDKCreateTaskRequest
  | PostTaskSend string string string

text \<open>What \<open>response.json()\<close> resolves to, by the schema the document satisfies.\<close>

datatype json =
    JUsers "CoderSDKUser list"
  | JTemplate CoderSDKTemplate
  | JPresets "CoderSDKTemplateVersionPreset list"
  | JTasks "ExperimentalCoderSDKTask list"
  | JTask ExperimentalCoderSDKTask
  | JOther

text \<open>
  The parts of a fetch \<open>Response\<close> that \<open>request\<close> reads. \<open>resp_text\<close> is the result
  of \<open>text()\<close> (\<open>None\<close>: the read rejects), \<open>resp_json\<close> the result of \<open>json()\<close>
  (\<open>None\<close>: it rejects, as it does on an empty body), \<open>resp_content_length\<close> the
  \<open>content-length\<close> header.
\<close>

record response =
  resp_status :: nat
  resp_statusText :: string
  resp_content_length :: "string option"
  resp_text :: "string option"
  resp_json :: "json option"

text \<open>\<open>Response.ok\<close> of the Fetch standard: the status is in the range 200 to 299.\<close>

definition resp_ok :: "response \<Rightarrow> bool" where
  "resp_ok r = (200 \<le> resp_status r \<and> resp_status r \<le> 299)"

record issue_comment =
  comment_id :: nat
  comment_body :: "string option"

text \<open>Everything the run does to the outside world, in the order it does it.\<close>

datatype event =
    Fetch endpoint
  | ListComments string string nat
  | UpdateComment string string nat string
  | CreateComment string string nat string
  | Sleep nat

text \<open>
  The environment answers every call, given the calls made so far: it may be any
  deterministic remote. \<open>fetch_outcome\<close> is \<open>None\<close> when \<open>fetch\<close> rejects,
  \<open>listComments_outcome\<close> is \<open>None\<close> when the octokit call rejects, and \<open>extra_ms\<close>
  is the time a call takes (for a sleep: beyond the time asked for).
\<close>

record env =
  fetch_outcome :: "event list \<Rightarrow> endpoint \<Rightarrow> response option"
  listComments_outcome :: "event list \<Rightarrow> string \<Rightarrow> string \<Rightarrow> nat \<Rightarrow> issue_comment list option"
  writeComment_ok :: "event list \<Rightarrow> event \<Rightarrow> bool"
  extra_ms :: "event list \<Rightarrow> event \<Rightarrow> nat"

record world =
  clock :: int
  trace :: "event list"

fun base_ms :: "event \<Rightarrow> nat" where
  "base_ms (Sleep ms) = ms"
| "base_ms _ = 0"

definition perform :: "env \<Rightarrow> event \<Rightarrow> world \<Rightarrow> world" where
  "perform e ev w =
     \<lparr>clock = clock w + int (base_ms ev + extra_ms e (trace w) ev), trace = trace w @ [ev]\<rparr>"

text \<open>An asynchronous function: it runs in a world and ends with a throw or a value.\<close>

type_synonym 'a prog = "world \<Rightarrow> (error + 'a) \<times> world"

definition succeed :: "'a \<Rightarrow> 'a prog" where
  "succeed x w = (Inr x, w)"

definition throw :: "error \<Rightarrow> 'a prog" where
  "throw err w = (Inl err, w)"

definition lift :: "error + 'a \<Rightarrow> 'a prog" where
  "lift r w = (r, w)"

definition andThen :: "'a prog \<Rightarrow> ('a \<Rightarrow> 'b prog) \<Rightarrow> 'b prog" where
  "andThen m f w = (case m w of (Inl err, w') \<Rightarrow> (Inl err, w') | (Inr x, w') \<Rightarrow> f x w')"

definition catch :: "'a prog \<Rightarrow> (error \<Rightarrow> 'a prog) \<Rightarrow> 'a prog" where
  "catch m h w = (case m w of (Inl err, w') \<Rightarrow> h err w' | (Inr x, w') \<Rightarrow> (Inr x, w'))"

section \<open>RealCoderClient (coder-client.ts)\<close>

definition fetch :: "env \<Rightarrow> endpoint \<Rightarrow> response prog" where
  "fetch e ep w =
     ((case fetch_outcome e (trace w) ep of None \<Rightarrow> Inl TypeError | Some r \<Rightarrow> Inr r),
      perform e (Fetch ep) w)"

text \<open>\<open>request\<close>; \<open>None\<close> is the \<open>undefined\<close> it returns for a response with no body.\<close>

definition request :: "env \<Rightarrow> endpoint \<Rightarrow> json option prog" where
  "request e ep =
     andThen (fetch e ep) (\<lambda>r.
       if \<not> resp_ok r then
         throw (CoderAPIError (''Coder API error: '' @ resp_statusText r) (resp_status r)
                  (BodyText (case resp_text r of None \<Rightarrow> [] | Some body \<Rightarrow> body)))
       else if resp_status r = 204 \<or> resp_content_length r = Some ''0'' then succeed None
       else (case resp_json r of None \<Rightarrow> throw SyntaxError | Some j \<Rightarrow> succeed (Some j)))"

text \<open>The zod schemas, applied to what \<open>request\<close> returned.\<close>

fun CoderSDKGetUsersResponseSchema_parse :: "json option \<Rightarrow> error + CoderSDKUser list" where
  "CoderSDKGetUsersResponseSchema_parse (Some (JUsers users)) = Inr users"
| "CoderSDKGetUsersResponseSchema_parse _ = Inl ZodError"

fun CoderSDKTemplateSchema_parse :: "json option \<Rightarrow> error + CoderSDKTemplate" where
  "CoderSDKTemplateSchema_parse (Some (JTemplate t)) = Inr t"
| "CoderSDKTemplateSchema_parse _ = Inl ZodError"

fun CoderSDKTemplateVersionPresetsResponseSchema_parse ::
  "json option \<Rightarrow> error + CoderSDKTemplateVersionPreset list" where
  "CoderSDKTemplateVersionPresetsResponseSchema_parse (Some (JPresets ps)) = Inr ps"
| "CoderSDKTemplateVersionPresetsResponseSchema_parse _ = Inl ZodError"

fun ExperimentalCoderSDKTaskListResponseSchema_parse ::
  "json option \<Rightarrow> error + ExperimentalCoderSDKTask list" where
  "ExperimentalCoderSDKTaskListResponseSchema_parse (Some (JTasks ts)) = Inr ts"
| "ExperimentalCoderSDKTaskListResponseSchema_parse _ = Inl ZodError"

fun ExperimentalCoderSDKTaskSchema_parse :: "json option \<Rightarrow> error + ExperimentalCoderSDKTask" where
  "ExperimentalCoderSDKTaskSchema_parse (Some (JTask t)) = Inr t"
| "ExperimentalCoderSDKTaskSchema_parse _ = Inl ZodError"

definition TaskNameSchema_parse :: "string \<Rightarrow> error + string" where
  "TaskNameSchema_parse s = (if length s < 1 then Inl ZodError else Inr s)"

definition getCoderUserByGitHubId :: "env \<Rightarrow> int option \<Rightarrow> CoderSDKUser prog" where
  "getCoderUserByGitHubId e githubUserId =
     (case githubUserId of
        None \<Rightarrow> throw (CoderAPIError ''GitHub user ID cannot be undefined'' 400 NoResponse)
      | Some g \<Rightarrow>
          if g = 0 then throw (ThrownString ''GitHub user ID cannot be 0'')
          else
            andThen (request e (GetUsersByGitHubId g)) (\<lambda>resp.
            andThen (lift (CoderSDKGetUsersResponseSchema_parse resp)) (\<lambda>users.
              if length users = 0 then
                throw (CoderAPIError (''No Coder user found with GitHub user ID '' @ show_int g)
                         404 NoResponse)
              else if length users > 1 then
                throw (CoderAPIError
                         (''Multiple Coder users found with GitHub user ID '' @ show_int g)
                         409 NoResponse)
              else succeed (users ! 0))))"

definition getTemplateByOrganizationAndName ::
  "env \<Rightarrow> string \<Rightarrow> string \<Rightarrow> CoderSDKTemplate prog" where
  "getTemplateByOrganizationAndName e organizationName templateName =
     andThen (request e (GetTemplate organizationName templateName)) (\<lambda>resp.
       lift (CoderSDKTemplateSchema_parse resp))"

definition getTemplateVersionPresets ::
  "env \<Rightarrow> string \<Rightarrow> CoderSDKTemplateVersionPreset list prog" where
  "getTemplateVersionPresets e templateVersionId =
     andThen (request e (GetTemplateVersionPresets templateVersionId)) (\<lambda>resp.
       lift (CoderSDKTemplateVersionPresetsResponseSchema_parse resp))"

text \<open>\<open>error instanceof CoderAPIError && error.statusCode === 404\<close>.\<close>

fun is_not_found :: "error \<Rightarrow> bool" where
  "is_not_found (CoderAPIError msg code resp) = (code = 404)"
| "is_not_found _ = False"

definition getTask :: "env \<Rightarrow> string \<Rightarrow> string \<Rightarrow> ExperimentalCoderSDKTask option prog" where
  "getTask e owner taskName =
     catch
       (andThen (request e (GetTasks owner)) (\<lambda>allTasksResponse.
        andThen (lift (ExperimentalCoderSDKTaskListResponseSchema_parse allTasksResponse)) (\<lambda>allTasks.
          succeed (find (\<lambda>t. task_name t = taskName) allTasks))))
       (\<lambda>err. if is_not_found err then succeed None else throw err)"

definition getTaskById :: "env \<Rightarrow> string \<Rightarrow> string \<Rightarrow> ExperimentalCoderSDKTask prog" where
  "getTaskById e owner taskId =
     andThen (request e (GetTaskById owner taskId)) (\<lambda>resp.
       lift (ExperimentalCoderSDKTaskSchema_parse resp))"

definition createTask ::
  "env \<Rightarrow> string \<Rightarrow> ExperimentalCoderSDKCreateTaskRequest \<Rightarrow> ExperimentalCoderSDKTask prog" where
  "createTask e owner params =
     andThen (request e (PostTask owner params)) (\<lambda>resp.
       lift (ExperimentalCoderSDKTaskSchema_parse resp))"

definition sendTaskInput :: "env \<Rightarrow> string \<Rightarrow> string \<Rightarrow> string \<Rightarrow> unit prog" where
  "sendTaskInput e ownerUsername taskId input =
     andThen (request e (PostTaskSend ownerUsername taskId input)) (\<lambda>resp. succeed ())"

text \<open>No call moves the clock back.\<close>

lemma request_clock: "request e ep w = (r, w') \<Longrightarrow> clock w \<le> clock w'"
  by (auto simp: request_def andThen_def fetch_def perform_def throw_def succeed_def
      split: option.splits if_splits)

lemma getTaskById_clock: "getTaskById e owner taskId w = (r, w') \<Longrightarrow> clock w \<le> clock w'"
  by (auto simp: getTaskById_def andThen_def lift_def split: prod.splits sum.splits
      dest: request_clock)

text \<open>
  The \<open>while\<close> loop of \<open>waitForTaskActive\<close>. \<open>Date.now()\<close> is the clock of the world,
  \<open>setTimeout(resolve, pollIntervalMs)\<close> is the event \<open>Sleep 2000\<close>, which takes at
  least 2000 ms, and this is why the loop ends. The \<open>logFn\<close> call writes a log only
  and is left out.
\<close>

function wait_loop :: "env \<Rightarrow> string \<Rightarrow> string \<Rightarrow> int \<Rightarrow> int \<Rightarrow> unit prog" where
  "wait_loop e owner taskId timeoutMs startTime w =
     (if clock w - startTime < timeoutMs then
        (case getTaskById e owner taskId w of
           (Inl err, w1) \<Rightarrow> (Inl err, w1)
         | (Inr task, w1) \<Rightarrow>
             if status task = Error then
               (Inl (CoderAPIError ''Task entered error state while waiting for active state''
                       500 (TaskValue task)), w1)
             else if status task = Active \<and> current_state task = Some Idle then (Inr (), w1)
             else wait_loop e owner taskId timeoutMs startTime (perform e (Sleep 2000) w1))
      else
        (Inl (CoderAPIError
                (''Timeout waiting for task to reach active state (waited ''
                   @ show_int timeoutMs @ ''ms)'')
                408 NoResponse), w))"
  by pat_completeness auto
termination
  apply (relation "measure (\<lambda>(e, owner, taskId, timeoutMs, startTime, w).
                     nat (timeoutMs - (clock w - startTime)))")
   apply simp
  apply (auto simp: perform_def dest!: getTaskById_clock [OF sym])
  done

declare wait_loop.simps [simp del]

definition waitForTaskActive :: "env \<Rightarrow> string \<Rightarrow> string \<Rightarrow> int \<Rightarrow> unit prog" where
  "waitForTaskActive e owner taskId timeoutMs w = wait_loop e owner taskId timeoutMs (clock w) w"

text \<open>The default of the parameter \<open>timeoutMs\<close>: 2 minutes.\<close>

definition default_timeoutMs :: int where
  "default_timeoutMs = 120000"

section \<open>The octokit calls and the issue comment (action.ts, commentOnIssue)\<close>

definition listComments :: "env \<Rightarrow> string \<Rightarrow> string \<Rightarrow> nat \<Rightarrow> issue_comment list prog" where
  "listComments e owner repo issue_number w =
     ((case listComments_outcome e (trace w) owner repo issue_number of
         None \<Rightarrow> Inl RequestError | Some comments \<Rightarrow> Inr comments),
      perform e (ListComments owner repo issue_number) w)"

definition updateComment :: "env \<Rightarrow> string \<Rightarrow> string \<Rightarrow> nat \<Rightarrow> string \<Rightarrow> unit prog" where
  "updateComment e owner repo cid body w =
     ((if writeComment_ok e (trace w) (UpdateComment owner repo cid body) then Inr ()
       else Inl RequestError),
      perform e (UpdateComment owner repo cid body) w)"

definition createComment :: "env \<Rightarrow> string \<Rightarrow> string \<Rightarrow> nat \<Rightarrow> string \<Rightarrow> unit prog" where
  "createComment e owner repo issue_number body w =
     ((if writeComment_ok e (trace w) (CreateComment owner repo issue_number body) then Inr ()
       else Inl RequestError),
      perform e (CreateComment owner repo issue_number body) w)"

text \<open>\<open>comment.body?.startsWith("Task created:")\<close>.\<close>

definition is_task_comment :: "issue_comment \<Rightarrow> bool" where
  "is_task_comment c =
     (case comment_body c of None \<Rightarrow> False | Some b \<Rightarrow> startsWith b ''Task created:'')"

text \<open>The \<open>catch\<close> block only logs the error (\<open>core.error\<close>); the function then returns.\<close>

definition commentOnIssue :: "env \<Rightarrow> string \<Rightarrow> string \<Rightarrow> string \<Rightarrow> nat \<Rightarrow> unit prog" where
  "commentOnIssue e taskUrl owner repo issueNumber =
     (let body = ''Task created: '' @ taskUrl in
      catch
        (andThen (listComments e owner repo issueNumber) (\<lambda>comments.
           case find is_task_comment (rev comments) of
             Some existingComment \<Rightarrow> updateComment e owner repo (comment_id existingComment) body
           | None \<Rightarrow> createComment e owner repo issueNumber body))
        (\<lambda>err. succeed ()))"

section \<open>The issue URL (action.ts, parseGithubIssueURL)\<close>

text \<open>
  The regular expression \<open>/([^/]+)\/([^/]+)\/issues\/(\d+)/\<close>. At a given start, each
  of the two groups can only be the whole run of characters up to the next slash (a
  shorter one is not followed by a slash), and the digits are taken greedily;
  \<open>match_at\<close> is the match that starts at the head of the text, and
  \<open>match_issue_url\<close> tries every start from the left, as \<open>String.prototype.match\<close>
  does.
\<close>

definition not_slash :: "char \<Rightarrow> bool" where
  "not_slash c = (c \<noteq> CHR ''/'')"

definition is_digit :: "char \<Rightarrow> bool" where
  "is_digit c = (c \<in> set ''0123456789'')"

definition match_at :: "string \<Rightarrow> (string \<times> string \<times> string) option" where
  "match_at s =
     (let g1 = takeWhile not_slash s; r1 = dropWhile not_slash s in
      if g1 = [] \<or> r1 = [] then None
      else
        let g2 = takeWhile not_slash (tl r1); r2 = dropWhile not_slash (tl r1) in
        if g2 = [] \<or> \<not> startsWith r2 ''/issues/'' then None
        else
          let ds = takeWhile is_digit (drop 8 r2) in
          if ds = [] then None else Some (g1, g2, ds))"

fun match_issue_url :: "string \<Rightarrow> (string \<times> string \<times> string) option" where
  "match_issue_url [] = match_at []"
| "match_issue_url (c # cs) =
     (case match_at (c # cs) of Some m \<Rightarrow> Some m | None \<Rightarrow> match_issue_url cs)"

text \<open>
  \<open>parseInt(digits, 10)\<close> on a string of decimal digits. The model gives the number
  that the digits denote, as the code does when this number is below \<open>2^53\<close>. A
  JavaScript number is a double: from \<open>2^53\<close> on the code has a double near that
  number, and there the model does not follow the code.
\<close>

definition digit_value :: "char \<Rightarrow> nat" where
  "digit_value c = of_char c - of_char (CHR ''0'')"

definition parseInt :: "string \<Rightarrow> nat" where
  "parseInt ds = foldl (\<lambda>acc c. 10 * acc + digit_value c) 0 ds"

definition parseGithubIssueURL :: "ActionInputs \<Rightarrow> error + (string \<times> string \<times> nat)" where
  "parseGithubIssueURL inputs =
     (if githubIssueURL inputs = [] then Inl (PlainError ''Missing issue URL'')
      else
        (case match_issue_url (githubIssueURL inputs) of
           None \<Rightarrow> Inl (PlainError (''Invalid issue URL: '' @ githubIssueURL inputs))
         | Some (githubOrg, githubRepo, ds) \<Rightarrow> Inr (githubOrg, githubRepo, parseInt ds)))"

section \<open>The run (action.ts, CoderTaskAction.run)\<close>

text \<open>
  \<open>run\<close> is modelled in two parts, in the order of the source. \<open>resolveRun\<close> is
  lines 180 to 233: the user, the issue URL, the task name, the template and the preset.
  \<open>ensureTaskRunning\<close> is lines 235 to 308: the task lookup, then the path of an
  existing task or the creation of a new one. The \<open>core.info\<close> calls write a log only and
  are left out.
\<close>

record resolved =
  coderUser :: CoderSDKUser
  githubOrg :: string
  githubRepo :: string
  githubIssueNumber :: nat
  taskName :: string
  template :: CoderSDKTemplate
  presetID :: "string option"

definition resolveRun :: "env \<Rightarrow> ActionInputs \<Rightarrow> resolved prog" where
  "resolveRun e inputs =
     andThen (getCoderUserByGitHubId e (githubUserID inputs)) (\<lambda>user.
     andThen (lift (parseGithubIssueURL inputs)) (\<lambda>(org, repo, issueNumber).
     andThen (if coderTaskNamePrefix inputs = [] \<or> githubIssueURL inputs = []
              then throw (PlainError
                     ''either taskName or both taskNamePrefix and issueURL must be provided'')
              else succeed ()) (\<lambda>_.
     andThen (lift (TaskNameSchema_parse
                      (coderTaskNamePrefix inputs @ ''-'' @ show_nat issueNumber))) (\<lambda>name.
     andThen (getTemplateByOrganizationAndName e (coderOrganization inputs)
                (coderTemplateName inputs)) (\<lambda>tmpl.
     andThen (getTemplateVersionPresets e (active_version_id tmpl)) (\<lambda>templateVersionPresets.
     andThen (lift (selectPreset (coderTemplatePreset inputs) templateVersionPresets)) (\<lambda>preset.
       succeed \<lparr>coderUser = user, githubOrg = org, githubRepo = repo,
                githubIssueNumber = issueNumber, taskName = name, template = tmpl,
                presetID = preset\<rparr>)))))))"

definition createTaskRequest :: "ActionInputs \<Rightarrow> resolved \<Rightarrow> ExperimentalCoderSDKCreateTaskRequest" where
  "createTaskRequest inputs c =
     \<lparr>req_name = taskName c,
      req_template_version_id = active_version_id (template c),
      req_template_version_preset_id = presetID c,
      req_input = coderTaskPrompt inputs\<rparr>"

definition ensureTaskRunning :: "env \<Rightarrow> ActionInputs \<Rightarrow> resolved \<Rightarrow> ActionOutputs prog" where
  "ensureTaskRunning e inputs c =
     andThen (getTask e (username (coderUser c)) (taskName c)) (\<lambda>existingTask.
       case existingTask of
         Some existing \<Rightarrow>
           andThen (if status existing \<noteq> Active
                    then waitForTaskActive e (username (coderUser c)) (task_id existing) 1200000
                    else succeed ()) (\<lambda>_.
           andThen (sendTaskInput e (username (coderUser c)) (task_id existing)
                      (coderTaskPrompt inputs)) (\<lambda>_.
             succeed \<lparr>out_coderUsername = username (coderUser c),
                      out_taskName = task_name existing,
                      out_taskUrl = generateTaskUrl inputs (username (coderUser c)) (task_id existing),
                      out_taskCreated = False\<rparr>))
       | None \<Rightarrow>
           andThen (createTask e (username (coderUser c)) (createTaskRequest inputs c)) (\<lambda>createdTask.
             let taskUrl = generateTaskUrl inputs (username (coderUser c)) (task_id createdTask) in
             andThen (if commentOnIssueInput inputs
                      then commentOnIssue e taskUrl (githubOrg c) (githubRepo c) (githubIssueNumber c)
                      else succeed ()) (\<lambda>_.
               succeed \<lparr>out_coderUsername = username (coderUser c),
                        out_taskName = taskName c,
                        out_taskUrl = taskUrl,
                        out_taskCreated = True\<rparr>)))"

definition run :: "env \<Rightarrow> ActionInputs \<Rightarrow> ActionOutputs prog" where
  "run e inputs = andThen (resolveRun e inputs) (\<lambda>c. ensureTaskRunning e inputs c)"

section \<open>Validation and the entry point (schemas.ts, index.ts)\<close>

text \<open>
  \<open>ActionInputsSchema\<close>: the base schema and the union of the two identity forms.
  \<open>is_url\<close> is zod's \<open>url()\<close> check, which is a parameter here.
\<close>

definition BaseInputsSchema_accepts :: "(string \<Rightarrow> bool) \<Rightarrow> ActionInputs \<Rightarrow> bool" where
  "BaseInputsSchema_accepts is_url i =
     (coderTaskPrompt i \<noteq> [] \<and> coderToken i \<noteq> [] \<and> is_url (coderURL i) \<and>
      coderTemplateName i \<noteq> [] \<and> is_url (githubIssueURL i) \<and>
      coderOrganization i \<noteq> [] \<and> coderTaskNamePrefix i \<noteq> [])"

definition WithGithubUserIDSchema_accepts :: "(string \<Rightarrow> bool) \<Rightarrow> ActionInputs \<Rightarrow> bool" where
  "WithGithubUserIDSchema_accepts is_url i =
     (BaseInputsSchema_accepts is_url i \<and>
      (case githubUserID i of None \<Rightarrow> False | Some g \<Rightarrow> 1 \<le> g) \<and> coderUsername i = None)"

definition WithCoderUsernameSchema_accepts :: "(string \<Rightarrow> bool) \<Rightarrow> ActionInputs \<Rightarrow> bool" where
  "WithCoderUsernameSchema_accepts is_url i =
     (BaseInputsSchema_accepts is_url i \<and> githubUserID i = None \<and>
      (case coderUsername i of None \<Rightarrow> False | Some u \<Rightarrow> 1 \<le> length u))"

definition ActionInputsSchema_accepts :: "(string \<Rightarrow> bool) \<Rightarrow> ActionInputs \<Rightarrow> bool" where
  "ActionInputsSchema_accepts is_url i =
     (WithGithubUserIDSchema_accepts is_url i \<or> WithCoderUsernameSchema_accepts is_url i)"

text \<open>
  What \<open>main\<close> tells the invoking environment: the four outputs, or \<open>core.setFailed\<close>
  with one message and \<open>process.exit(1)\<close>. An \<open>Error\<close> built by this program carries
  its message; the text of an error built by a library is not modelled; a thrown value
  that is no \<open>Error\<close> gives "Unknown error occurred".
\<close>

datatype failure = Message string | LibraryMessage error | UnknownErrorOccurred

datatype outcome = SetOutputs ActionOutputs | SetFailed failure

fun failure_of :: "error \<Rightarrow> failure" where
  "failure_of (CoderAPIError msg code resp) = Message msg"
| "failure_of (PlainError msg) = Message msg"
| "failure_of (ThrownString s) = UnknownErrorOccurred"
| "failure_of err = LibraryMessage err"

definition main :: "(string \<Rightarrow> bool) \<Rightarrow> env \<Rightarrow> ActionInputs \<Rightarrow> world \<Rightarrow> outcome \<times> world" where
  "main is_url e inputs w =
     (if \<not> ActionInputsSchema_accepts is_url inputs then (SetFailed (LibraryMessage ZodError), w)
      else
        (case run e inputs w of
           (Inl err, w') \<Rightarrow> (SetFailed (failure_of err), w')
         | (Inr outputs, w') \<Rightarrow> (SetOutputs outputs, w')))"

section \<open>A concrete remote, for the examples\<close>

text \<open>
  A small deployment in the way of the mocks of the test suite: one user linked to the
  GitHub id 12345, one template with two presets, and a task list that holds the tasks
  created so far.
\<close>

definition mockUser :: CoderSDKUser where
  "mockUser = \<lparr>user_id = ''user-1'', username = ''testuser'', email = ''test@example.com'',
     organization_ids = [''org-1''], github_com_user_id = Some 12345\<rparr>"

definition mockTemplate :: CoderSDKTemplate where
  "mockTemplate = \<lparr>template_id = ''tmpl-1'', template_name = ''my-template'',
     description = None, organization_id = ''org-1'', active_version_id = ''ver-1''\<rparr>"

definition mockPresets :: "CoderSDKTemplateVersionPreset list" where
  "mockPresets = [\<lparr>preset_ID = ''a'', preset_Name = ''small'', preset_Default = False\<rparr>,
                  \<lparr>preset_ID = ''b'', preset_Name = ''large'', preset_Default = True\<rparr>,
                  \<lparr>preset_ID = ''c'', preset_Name = ''small'', preset_Default = True\<rparr>]"

definition mockTask ::
  "string \<Rightarrow> ExperimentalCoderSDKTaskStatus \<Rightarrow> ExperimentalCoderSDKTaskState option
     \<Rightarrow> ExperimentalCoderSDKTask" where
  "mockTask name st cs = \<lparr>task_id = ''id-'' @ name, task_name = name, owner_id = ''user-1'',
     task_template_id = ''tmpl-1'', created_at = ''2025'', updated_at = ''2025'',
     status = st, current_state = cs\<rparr>"

definition json_response :: "json \<Rightarrow> response" where
  "json_response j = \<lparr>resp_status = 200, resp_statusText = ''OK'', resp_content_length = None,
     resp_text = None, resp_json = Some j\<rparr>"

definition no_content :: response where
  "no_content = \<lparr>resp_status = 204, resp_statusText = ''No Content'',
     resp_content_length = None, resp_text = Some [], resp_json = None\<rparr>"

fun created_names :: "string \<Rightarrow> event list \<Rightarrow> string list" where
  "created_names owner [] = []"
| "created_names owner (Fetch (PostTask o' req) # tr) =
     (if o' = owner then req_name req # created_names owner tr else created_names owner tr)"
| "created_names owner (ev # tr) = created_names owner tr"

definition mock_fetch :: "event list \<Rightarrow> endpoint \<Rightarrow> response option" where
  "mock_fetch tr ep =
     (case ep of
        GetUsersByGitHubId g \<Rightarrow>
          Some (json_response (JUsers (if g = 12345 then [mockUser] else [])))
      | GetTemplate org name \<Rightarrow> Some (json_response (JTemplate mockTemplate))
      | GetTemplateVersionPresets v \<Rightarrow> Some (json_response (JPresets mockPresets))
      | GetTasks owner \<Rightarrow>
          Some (json_response
                  (JTasks (map (\<lambda>n. mockTask n Active (Some Idle)) (created_names owner tr))))
      | GetTaskById owner tid \<Rightarrow>
          Some (json_response (JTask (mockTask (drop 3 tid) Active (Some Idle))))
      | PostTask owner req \<Rightarrow>
          Some (json_response (JTask (mockTask (req_name req) Pending None)))
      | PostTaskSend owner tid input \<Rightarrow> Some no_content)"

definition mock_env :: env where
  "mock_env = \<lparr>fetch_outcome = mock_fetch,
     listComments_outcome = (\<lambda>tr owner repo n. Some []),
     writeComment_ok = (\<lambda>tr ev. True),
     extra_ms = (\<lambda>tr ev. 5)\<rparr>"

definition mock_inputs :: ActionInputs where
  "mock_inputs = \<lparr>coderTaskPrompt = ''fix it'', coderToken = ''token'',
     coderURL = ''https://h.test/?x=1#y'', coderTemplateName = ''my-template'',
     githubIssueURL = ''https://github.com/acme/widgets/issues/42'', githubToken = ''gh'',
     coderOrganization = ''default'', coderTaskNamePrefix = ''gh'',
     coderTemplatePreset = None, commentOnIssueInput = True,
     githubUserID = Some 12345, coderUsername = None\<rparr>"

definition w0 :: world where
  "w0 = \<lparr>clock = 0, trace = []\<rparr>"

definition empty_body_response :: response where
  "empty_body_response = \<lparr>resp_status = 200, resp_statusText = ''OK'',
     resp_content_length = None, resp_text = Some [], resp_json = None\<rparr>"

definition error_response :: "nat \<Rightarrow> string \<Rightarrow> string option \<Rightarrow> response" where
  "error_response code txt body = \<lparr>resp_status = code, resp_statusText = txt,
     resp_content_length = None, resp_text = body, resp_json = None\<rparr>"

definition always :: "response \<Rightarrow> env" where
  "always r = mock_env\<lparr>fetch_outcome := (\<lambda>tr ep. Some r)\<rparr>"

definition offline :: env where
  "offline = mock_env\<lparr>fetch_outcome := (\<lambda>tr ep. None)\<rparr>"

definition two_users :: env where
  "two_users = always (json_response (JUsers [mockUser, mockUser\<lparr>username := ''other''\<rparr>]))"

definition after_create :: world where
  "after_create = \<lparr>clock = 35, trace = [Fetch (PostTask ''testuser''
     \<lparr>req_name = ''gh-42'', req_template_version_id = ''ver-1'',
      req_template_version_preset_id = Some ''b'', req_input = ''fix it''\<rparr>)]\<rparr>"

section \<open>The Ready-Wait state machine of the specification\<close>

text \<open>
  The Ready-Wait state machine in the words of the specification, to compare with
  \<open>waitForTaskActive\<close>. A task is ready when it is active and idle, and waiting when it
  is neither ready nor in error. \<open>poll_result\<close> is what a fetch of the task delivers
  after a given history of calls; \<open>poll_rounds n\<close> is \<open>n\<close> times a fetch of the task
  and a sleep of 2 seconds.
\<close>

definition task_ready :: "ExperimentalCoderSDKTask \<Rightarrow> bool" where
  "task_ready t = (status t = Active \<and> current_state t = Some Idle)"

definition task_waiting :: "ExperimentalCoderSDKTask \<Rightarrow> bool" where
  "task_waiting t = (status t \<noteq> Error \<and> \<not> task_ready t)"

definition poll_rounds :: "string \<Rightarrow> string \<Rightarrow> nat \<Rightarrow> event list" where
  "poll_rounds owner taskId n = concat (replicate n [Fetch (GetTaskById owner taskId), Sleep 2000])"

definition poll_result :: "env \<Rightarrow> string \<Rightarrow> string \<Rightarrow> event list \<Rightarrow> error + ExperimentalCoderSDKTask" where
  "poll_result e owner taskId tr = fst (getTaskById e owner taskId \<lparr>clock = 0, trace = tr\<rparr>)"

definition task_error :: "ExperimentalCoderSDKTask \<Rightarrow> error" where
  "task_error t =
     CoderAPIError ''Task entered error state while waiting for active state'' 500 (TaskValue t)"

definition timeout_error :: "int \<Rightarrow> error" where
  "timeout_error timeoutMs =
     CoderAPIError (''Timeout waiting for task to reach active state (waited ''
                      @ show_int timeoutMs @ ''ms)'') 408 NoResponse"

text \<open>The world after a list of calls, made one after the other.\<close>

definition after_calls :: "env \<Rightarrow> world \<Rightarrow> event list \<Rightarrow> world" where
  "after_calls e w evs = foldl (\<lambda>w ev. perform e ev w) w evs"

text \<open>
  A wait that started at time \<open>start\<close> and is in the world \<open>w\<close> ends with \<open>r\<close> in the
  world \<open>w'\<close> after \<open>n\<close> rounds. Every round began before the budget was used up,
  and its fetch found the task waiting. After the rounds, either the budget is used up,
  and then the wait ends with the timeout error and makes no further call; or it is not,
  and then the task is fetched once more, and this fetch finds the task ready (success),
  or finds it in error, or fails itself.
\<close>

definition ready_wait_outcome ::
  "env \<Rightarrow> string \<Rightarrow> string \<Rightarrow> int \<Rightarrow> int \<Rightarrow> world \<Rightarrow> nat \<Rightarrow> error + unit \<Rightarrow> world \<Rightarrow> bool" where
  "ready_wait_outcome e owner taskId timeoutMs start w n r w' =
     ((\<forall>i<n. let wi = after_calls e w (poll_rounds owner taskId i)
              in clock wi - start < timeoutMs \<and>
                 (\<exists>t. poll_result e owner taskId (trace wi) = Inr t \<and> task_waiting t)) \<and>
      (let wn = after_calls e w (poll_rounds owner taskId n);
           in_time = (clock wn - start < timeoutMs);
           answer = poll_result e owner taskId (trace wn);
           polled = perform e (Fetch (GetTaskById owner taskId)) wn
       in (in_time \<and> r = Inr () \<and> w' = polled \<and> (\<exists>t. answer = Inr t \<and> task_ready t)) \<or>
          (in_time \<and> (\<exists>t. r = Inl (task_error t) \<and> w' = polled \<and> answer = Inr t
                          \<and> status t = Error)) \<or>
          (in_time \<and> (\<exists>err. r = Inl err \<and> w' = polled \<and> answer = Inl err)) \<or>
          (timeoutMs \<le> clock wn - start \<and> r = Inl (timeout_error timeoutMs) \<and> w' = wn)))"

section \<open>More concrete remotes\<close>

fun count_polls :: "event list \<Rightarrow> nat" where
  "count_polls [] = 0"
| "count_polls (Fetch (GetTaskById owner tid) # tr) = Suc (count_polls tr)"
| "count_polls (ev # tr) = count_polls tr"

text \<open>A remote whose task is pending for the first \<open>k\<close> fetches of it, and then as given.\<close>

definition task_after ::
  "nat \<Rightarrow> ExperimentalCoderSDKTaskStatus \<Rightarrow> ExperimentalCoderSDKTaskState option \<Rightarrow> env" where
  "task_after k st cs = mock_env\<lparr>fetch_outcome := (\<lambda>tr ep.
     case ep of
       GetTaskById owner tid \<Rightarrow>
         Some (json_response (JTask (if count_polls tr < k then mockTask (drop 3 tid) Pending None
                                     else mockTask (drop 3 tid) st cs)))
     | _ \<Rightarrow> mock_fetch tr ep)\<rparr>"

definition mock_resolved :: resolved where
  "mock_resolved = \<lparr>coderUser = mockUser, githubOrg = ''acme'', githubRepo = ''widgets'',
     githubIssueNumber = 42, taskName = ''gh-42'', template = mockTemplate,
     presetID = Some ''b''\<rparr>"

definition mock_request :: ExperimentalCoderSDKCreateTaskRequest where
  "mock_request = \<lparr>req_name = ''gh-42'', req_template_version_id = ''ver-1'',
     req_template_version_preset_id = Some ''b'', req_input = ''fix it''\<rparr>"



definition resolve_calls :: "event list" where
  "resolve_calls = [Fetch (GetUsersByGitHubId 12345), Fetch (GetTemplate ''default'' ''my-template''),
     Fetch (GetTemplateVersionPresets ''ver-1'')]"

definition run1_world :: world where
  "run1_world = \<lparr>clock = 35, trace = resolve_calls @
     [Fetch (GetTasks ''testuser''), Fetch (PostTask ''testuser'' mock_request),
      ListComments ''acme'' ''widgets'' 42,
      CreateComment ''acme'' ''widgets'' 42 ''Task created: https://h.test/tasks/testuser/id-gh-42'']\<rparr>"

definition run2_world :: world where
  "run2_world = \<lparr>clock = 60, trace = trace run1_world @ resolve_calls @
     [Fetch (GetTasks ''testuser''), Fetch (PostTaskSend ''testuser'' ''id-gh-42'' ''fix it'')]\<rparr>"

definition created_outputs :: ActionOutputs where
  "created_outputs = \<lparr>out_coderUsername = ''testuser'', out_taskName = ''gh-42'',
     out_taskUrl = ''https://h.test/tasks/testuser/id-gh-42'', out_taskCreated = True\<rparr>"

definition github_down :: env where
  "github_down = mock_env\<lparr>listComments_outcome := (\<lambda>tr owner repo n. None)\<rparr>"

text \<open>The concrete remote, but every request that passes the test gets status 500.\<close>

definition fails_on :: "(endpoint \<Rightarrow> bool) \<Rightarrow> env" where
  "fails_on bad = mock_env\<lparr>fetch_outcome := (\<lambda>tr ep.
     if bad ep then Some (error_response 500 ''Internal Server Error'' None)
     else mock_fetch tr ep)\<rparr>"

fun is_template_request :: "endpoint \<Rightarrow> bool" where
  "is_template_request (GetTemplate org name) = True"
| "is_template_request ep = False"

fun is_presets_request :: "endpoint \<Rightarrow> bool" where
  "is_presets_request (GetTemplateVersionPresets v) = True"
| "is_presets_request ep = False"

fun is_tasks_request :: "endpoint \<Rightarrow> bool" where
  "is_tasks_request (GetTasks owner) = True"
| "is_tasks_request ep = False"

fun is_create_request :: "endpoint \<Rightarrow> bool" where
  "is_create_request (PostTask owner params) = True"
| "is_create_request ep = False"

fun is_send_request :: "endpoint \<Rightarrow> bool" where
  "is_send_request (PostTaskSend owner tid input) = True"
| "is_send_request ep = False"

text \<open>The concrete remote, with the task of the issue in the status "error".\<close>

definition broken_task :: env where
  "broken_task = mock_env\<lparr>fetch_outcome := (\<lambda>tr ep.
     case ep of
       GetTasks owner \<Rightarrow> Some (json_response (JTasks [mockTask ''gh-42'' Error None]))
     | GetTaskById owner tid \<Rightarrow> Some (json_response (JTask (mockTask ''gh-42'' Error None)))
     | _ \<Rightarrow> mock_fetch tr ep)\<rparr>"

definition mock_is_url :: "string \<Rightarrow> bool" where
  "mock_is_url s = startsWith s ''http''"

definition username_inputs :: ActionInputs where
  "username_inputs = mock_inputs\<lparr>githubUserID := None, coderUsername := Some ''testuser''\<rparr>"

section \<open>The task URL\<close>

lemma before_query_or_fragment_split:
  "\<exists>rest. s = before_query_or_fragment s @ rest \<and>
          (rest = [] \<or> is_query_or_fragment_mark (hd rest))"
proof -
  let ?P = "\<lambda>c. \<not> is_query_or_fragment_mark c"
  have "s = takeWhile ?P s @ dropWhile ?P s" by simp
  moreover have "dropWhile ?P s = [] \<or> is_query_or_fragment_mark (hd (dropWhile ?P s))"
    using hd_dropWhile [of ?P s] by auto
  ultimately show ?thesis unfolding before_query_or_fragment_def by blast
qed

lemma strip_trailing_slash_cases:
  "s = strip_trailing_slash s \<or> s = strip_trailing_slash s @ ''/''"
proof (cases "s \<noteq> [] \<and> last s = CHR ''/''")
  case True
  then have "butlast s @ ''/'' = s" using append_butlast_last_id [of s] by simp
  then show ?thesis using True by (simp add: strip_trailing_slash_def)
next
  case False
  then show ?thesis by (auto simp: strip_trailing_slash_def)
qed

lemma baseURL_no_marks:
  "CHR ''?'' \<notin> set (baseURL url) \<and> CHR ''#'' \<notin> set (baseURL url)"
  unfolding baseURL_def strip_trailing_slash_def before_query_or_fragment_def
  by (auto simp: is_query_or_fragment_mark_def dest!: in_set_butlastD set_takeWhileD)

lemma baseURL_split:
  "\<exists>rest. url = baseURL url @ rest \<and>
     (rest = [] \<or> is_query_or_fragment_mark (hd rest) \<or>
      (hd rest = CHR ''/'' \<and> (tl rest = [] \<or> is_query_or_fragment_mark (hd (tl rest)))))"
proof -
  obtain q where q: "url = before_query_or_fragment url @ q"
    and qm: "q = [] \<or> is_query_or_fragment_mark (hd q)"
    using before_query_or_fragment_split by blast
  from strip_trailing_slash_cases [of "before_query_or_fragment url"]
  show ?thesis
  proof
    assume "before_query_or_fragment url = strip_trailing_slash (before_query_or_fragment url)"
    then have "url = baseURL url @ q" using q by (simp add: baseURL_def)
    with qm show ?thesis by blast
  next
    assume "before_query_or_fragment url
              = strip_trailing_slash (before_query_or_fragment url) @ ''/''"
    then have "url = baseURL url @ (CHR ''/'' # q)"
      using q unfolding baseURL_def by (metis append_Cons append_Nil append_assoc)
    moreover have "hd (CHR ''/'' # q) = CHR ''/'' \<and>
        (tl (CHR ''/'' # q) = [] \<or> is_query_or_fragment_mark (hd (tl (CHR ''/'' # q))))"
      using qm by simp
    ultimately show ?thesis by blast
  qed
qed

lemma before_query_or_fragment_append:
  assumes "\<forall>c\<in>set p. \<not> is_query_or_fragment_mark c"
    and "q = [] \<or> is_query_or_fragment_mark (hd q)"
  shows "before_query_or_fragment (p @ q) = p"
proof (cases q)
  case Nil
  then show ?thesis using assms(1) by (simp add: before_query_or_fragment_def)
next
  case (Cons c q')
  then have "is_query_or_fragment_mark c" using assms(2) by simp
  then show ?thesis
    using assms(1) Cons by (simp add: before_query_or_fragment_def takeWhile_append)
qed

lemma baseURL_slash:
  assumes "\<forall>c\<in>set b. \<not> is_query_or_fragment_mark c"
    and "q = [] \<or> is_query_or_fragment_mark (hd q)"
  shows "baseURL (b @ ''/'' @ q) = b"
proof -
  have "\<forall>c\<in>set (b @ ''/''). \<not> is_query_or_fragment_mark c"
    using assms(1) by (auto simp: is_query_or_fragment_mark_def)
  then have "before_query_or_fragment ((b @ ''/'') @ q) = b @ ''/''"
    using assms(2) by (rule before_query_or_fragment_append)
  then show ?thesis by (simp add: baseURL_def strip_trailing_slash_def)
qed

lemma baseURL_no_slash:
  assumes "\<forall>c\<in>set b. \<not> is_query_or_fragment_mark c"
    and "q = [] \<or> is_query_or_fragment_mark (hd q)"
    and "b = [] \<or> last b \<noteq> CHR ''/''"
  shows "baseURL (b @ q) = b"
  using before_query_or_fragment_append [OF assms(1,2)] assms(3)
  by (auto simp: baseURL_def strip_trailing_slash_def)

lemma baseURL_forms:
  "\<exists>q. (q = [] \<or> is_query_or_fragment_mark (hd q)) \<and>
     (url = baseURL url @ ''/'' @ q \<or>
      url = baseURL url @ q \<and> (baseURL url = [] \<or> last (baseURL url) \<noteq> CHR ''/''))"
proof -
  let ?p = "before_query_or_fragment url"
  obtain q where q: "url = ?p @ q" and qm: "q = [] \<or> is_query_or_fragment_mark (hd q)"
    using before_query_or_fragment_split by blast
  show ?thesis
  proof (cases "?p \<noteq> [] \<and> last ?p = CHR ''/''")
    case True
    then have "butlast ?p @ ''/'' = ?p" using append_butlast_last_id [of ?p] by simp
    then have "url = baseURL url @ ''/'' @ q"
      using q True unfolding baseURL_def strip_trailing_slash_def
      by (metis append_assoc)
    then show ?thesis using qm by blast
  next
    case False
    then have "baseURL url = ?p" by (auto simp: baseURL_def strip_trailing_slash_def)
    then have "url = baseURL url @ q \<and> (baseURL url = [] \<or> last (baseURL url) \<noteq> CHR ''/'')"
      using q False by auto
    then show ?thesis using qm by blast
  qed
qed

text \<open>
  C9. The task URL depends on the configured deployment URL, the username and the task id
  only: inputs with the same deployment URL give the same task URL. It is the base, then
  \<open>/tasks/\<close>, the username, a slash and the task id. The base is the deployment URL
  cut before its first question mark or hash, with one slash at the end removed:
    \<^item> it holds no question mark and no hash, and what was cut off the deployment URL is
      nothing, a query or fragment, or one slash followed by nothing or by a query or
      fragment;
    \<^item> for every deployment URL that is a text \<open>b\<close> without question mark and hash,
      then a slash, then nothing or a query or fragment, the base is \<open>b\<close>: the slash is
      not kept;
    \<^item> for every deployment URL that is a text \<open>b\<close> without question mark and hash and
      without a slash at its end, then nothing or a query or fragment, the base is \<open>b\<close>.
  Every deployment URL has one of these two forms with its base for \<open>b\<close>, and of two
  slashes at the end the first one stays. For \<open>https://h.test/?x=1#y\<close>, \<open>u\<close> and \<open>t\<close> the result is
  \<open>https://h.test/tasks/u/t\<close>.
\<close>

theorem generateTaskUrl_strips_query_fragment_slash:
  "generateTaskUrl inputs u t = baseURL (coderURL inputs) @ ''/tasks/'' @ u @ ''/'' @ t \<and>
   (\<forall>other. coderURL other = coderURL inputs \<longrightarrow>
      generateTaskUrl other u t = generateTaskUrl inputs u t) \<and>
   CHR ''?'' \<notin> set (baseURL (coderURL inputs)) \<and>
   CHR ''#'' \<notin> set (baseURL (coderURL inputs)) \<and>
   (\<exists>rest. coderURL inputs = baseURL (coderURL inputs) @ rest \<and>
      (rest = [] \<or> is_query_or_fragment_mark (hd rest) \<or>
       (hd rest = CHR ''/'' \<and> (tl rest = [] \<or> is_query_or_fragment_mark (hd (tl rest)))))) \<and>
   (\<exists>q. (q = [] \<or> is_query_or_fragment_mark (hd q)) \<and>
      (coderURL inputs = baseURL (coderURL inputs) @ ''/'' @ q \<or>
       coderURL inputs = baseURL (coderURL inputs) @ q \<and>
       (baseURL (coderURL inputs) = [] \<or> last (baseURL (coderURL inputs)) \<noteq> CHR ''/''))) \<and>
   (\<forall>b q. (\<forall>c\<in>set b. \<not> is_query_or_fragment_mark c) \<and>
          (q = [] \<or> is_query_or_fragment_mark (hd q)) \<longrightarrow>
      generateTaskUrl (inputs\<lparr>coderURL := b @ ''/'' @ q\<rparr>) u t
        = b @ ''/tasks/'' @ u @ ''/'' @ t \<and>
      ((b = [] \<or> last b \<noteq> CHR ''/'') \<longrightarrow>
         generateTaskUrl (inputs\<lparr>coderURL := b @ q\<rparr>) u t
           = b @ ''/tasks/'' @ u @ ''/'' @ t)) \<and>
   generateTaskUrl (inputs\<lparr>coderURL := ''https://h.test/?x=1#y''\<rparr>) ''u'' ''t''
     = ''https://h.test/tasks/u/t''"
proof -
  have "generateTaskUrl (inputs\<lparr>coderURL := ''https://h.test/?x=1#y''\<rparr>) ''u'' ''t''
          = ''https://h.test/tasks/u/t''"
    by (simp add: generateTaskUrl_def baseURL_def strip_trailing_slash_def
        before_query_or_fragment_def is_query_or_fragment_mark_def)
  moreover have "generateTaskUrl (inputs\<lparr>coderURL := b @ ''/'' @ q\<rparr>) u t
        = b @ ''/tasks/'' @ u @ ''/'' @ t"
    if "\<forall>c\<in>set b. \<not> is_query_or_fragment_mark c" "q = [] \<or> is_query_or_fragment_mark (hd q)"
    for b q
    using baseURL_slash [OF that] by (simp add: generateTaskUrl_def)
  moreover have "generateTaskUrl (inputs\<lparr>coderURL := b @ q\<rparr>) u t
        = b @ ''/tasks/'' @ u @ ''/'' @ t"
    if "\<forall>c\<in>set b. \<not> is_query_or_fragment_mark c" "q = [] \<or> is_query_or_fragment_mark (hd q)"
       "b = [] \<or> last b \<noteq> CHR ''/''"
    for b q
    using baseURL_no_slash [OF that] by (simp add: generateTaskUrl_def)
  ultimately show ?thesis
    using baseURL_no_marks [of "coderURL inputs"] baseURL_split [of "coderURL inputs"]
      baseURL_forms [of "coderURL inputs"]
    by (simp add: generateTaskUrl_def)
qed

theorem generateTaskUrl_strips_query_fragment_slash_witness:
  "generateTaskUrl (mock_inputs\<lparr>coderURL := ''https://h.test/''\<rparr>) ''u'' ''t''
     = ''https://h.test/tasks/u/t'' \<and>
   generateTaskUrl (mock_inputs\<lparr>coderURL := ''https://h.test''\<rparr>) ''u'' ''t''
     = ''https://h.test/tasks/u/t'' \<and>
   generateTaskUrl (mock_inputs\<lparr>coderURL := ''https://h.test/?x=1#y''\<rparr>) ''u'' ''t''
     = ''https://h.test/tasks/u/t'' \<and>
   generateTaskUrl (mock_inputs\<lparr>coderURL := ''https://h.test#y''\<rparr>) ''u'' ''t''
     = ''https://h.test/tasks/u/t'' \<and>
   generateTaskUrl (mock_inputs\<lparr>coderURL := ''https://h.test//''\<rparr>) ''u'' ''t''
     = ''https://h.test//tasks/u/t''"
proof -
  note t = generateTaskUrl_strips_query_fragment_slash [of mock_inputs "''u''" "''t''",
      THEN conjunct2, THEN conjunct2, THEN conjunct2, THEN conjunct2, THEN conjunct2,
      THEN conjunct2, THEN conjunct1, rule_format]
  have b: "\<forall>c\<in>set ''https://h.test''. \<not> is_query_or_fragment_mark c"
    by (simp add: is_query_or_fragment_mark_def)
  have b2: "\<forall>c\<in>set ''https://h.test/''. \<not> is_query_or_fragment_mark c"
    by (simp add: is_query_or_fragment_mark_def)
  have k1: "generateTaskUrl (mock_inputs\<lparr>coderURL := ''https://h.test'' @ ''/'' @ []\<rparr>) ''u'' ''t''
     = ''https://h.test'' @ ''/tasks/'' @ ''u'' @ ''/'' @ ''t''"
    using t [of "''https://h.test''" "[]", THEN conjunct1] b by simp
  have k2: "generateTaskUrl (mock_inputs\<lparr>coderURL := ''https://h.test'' @ []\<rparr>) ''u'' ''t''
     = ''https://h.test'' @ ''/tasks/'' @ ''u'' @ ''/'' @ ''t''"
    using t [of "''https://h.test''" "[]", THEN conjunct2] b by simp
  have k3: "generateTaskUrl (mock_inputs\<lparr>coderURL := ''https://h.test'' @ ''/'' @ ''?x=1#y''\<rparr>) ''u'' ''t''
     = ''https://h.test'' @ ''/tasks/'' @ ''u'' @ ''/'' @ ''t''"
    using t [of "''https://h.test''" "''?x=1#y''", THEN conjunct1] b
    by (simp add: is_query_or_fragment_mark_def)
  have k4: "generateTaskUrl (mock_inputs\<lparr>coderURL := ''https://h.test'' @ ''#y''\<rparr>) ''u'' ''t''
     = ''https://h.test'' @ ''/tasks/'' @ ''u'' @ ''/'' @ ''t''"
    using t [of "''https://h.test''" "''#y''", THEN conjunct2] b
    by (simp add: is_query_or_fragment_mark_def)
  have k5: "generateTaskUrl (mock_inputs\<lparr>coderURL := ''https://h.test/'' @ ''/'' @ []\<rparr>) ''u'' ''t''
     = ''https://h.test/'' @ ''/tasks/'' @ ''u'' @ ''/'' @ ''t''"
    using t [of "''https://h.test/''" "[]", THEN conjunct1] b2 by simp
  show ?thesis using k1 k2 k3 k4 k5 by simp
qed

section \<open>Preset selection\<close>

lemma first_default_index:
  "k < length presets \<Longrightarrow> preset_Default (presets ! k)
   \<Longrightarrow> \<forall>j<k. \<not> preset_Default (presets ! j)
   \<Longrightarrow> first_default presets = Some (preset_ID (presets ! k))"
proof (induction presets arbitrary: k)
  case Nil
  then show ?case by simp
next
  case (Cons p ps)
  show ?case
  proof (cases k)
    case 0
    with Cons.prems show ?thesis by simp
  next
    case (Suc k')
    with Cons.prems have "\<not> preset_Default p" by auto
    moreover have "\<forall>j<k'. \<not> preset_Default (ps ! j)"
    proof (intro allI impI)
      fix j assume "j < k'"
      then have "Suc j < k" using Suc by simp
      with Cons.prems(3) show "\<not> preset_Default (ps ! j)" by fastforce
    qed
    then have "first_default ps = Some (preset_ID (ps ! k'))"
      using Cons.IH [of k'] Cons.prems(1,2) Suc by simp
    ultimately show ?thesis using Suc by simp
  qed
qed

lemma first_default_none:
  "\<forall>p\<in>set presets. \<not> preset_Default p \<Longrightarrow> first_default presets = None"
  by (induction presets) auto

lemma first_named_index:
  "k < length presets \<Longrightarrow> preset_Name (presets ! k) = name
   \<Longrightarrow> \<forall>j<k. preset_Name (presets ! j) \<noteq> name
   \<Longrightarrow> first_named name presets = Some (preset_ID (presets ! k))"
proof (induction presets arbitrary: k)
  case Nil
  then show ?case by simp
next
  case (Cons p ps)
  show ?case
  proof (cases k)
    case 0
    with Cons.prems show ?thesis by simp
  next
    case (Suc k')
    with Cons.prems have "preset_Name p \<noteq> name" by auto
    moreover have "\<forall>j<k'. preset_Name (ps ! j) \<noteq> name"
    proof (intro allI impI)
      fix j assume "j < k'"
      then have "Suc j < k" using Suc by simp
      with Cons.prems(3) show "preset_Name (ps ! j) \<noteq> name" by fastforce
    qed
    then have "first_named name ps = Some (preset_ID (ps ! k'))"
      using Cons.IH [of k'] Cons.prems(1,2) Suc by simp
    ultimately show ?thesis using Suc by simp
  qed
qed

lemma first_named_none:
  "\<forall>p\<in>set presets. preset_Name p \<noteq> name \<Longrightarrow> first_named name presets = None"
  by (induction presets) auto

text \<open>
  C4. Preset selection scans the presets in listed order. With no preset requested
  (the input is absent or empty), the result is the id of the first preset that is a
  default, and no preset, without an error, when none is a default. With a preset
  requested by name, the result is the id of the first preset with exactly this name
  (the id is not empty: the schema makes it a uuid), and when no preset has the name the
  selection fails with the error "Preset NAME not found".
\<close>

theorem selectPreset_list_order:
  "(\<not> truthy requested \<longrightarrow>
      (\<forall>k. k < length presets \<and> preset_Default (presets ! k) \<and>
            (\<forall>j<k. \<not> preset_Default (presets ! j))
          \<longrightarrow> selectPreset requested presets = Inr (Some (preset_ID (presets ! k)))) \<and>
      ((\<forall>p\<in>set presets. \<not> preset_Default p)
          \<longrightarrow> selectPreset requested presets = Inr None)) \<and>
   (name \<noteq> [] \<longrightarrow>
      (\<forall>k. k < length presets \<and> preset_Name (presets ! k) = name \<and>
            (\<forall>j<k. preset_Name (presets ! j) \<noteq> name) \<and> preset_ID (presets ! k) \<noteq> []
          \<longrightarrow> selectPreset (Some name) presets = Inr (Some (preset_ID (presets ! k)))) \<and>
      ((\<forall>p\<in>set presets. preset_Name p \<noteq> name)
          \<longrightarrow> selectPreset (Some name) presets
                = Inl (PlainError (''Preset '' @ name @ '' not found''))))"
  by (auto simp: selectPreset_def truthy_def template_text_def first_default_index
      first_default_none first_named_index first_named_none)

theorem selectPreset_list_order_witness:
  "selectPreset None mockPresets = Inr (Some ''b'') \<and>
   selectPreset (Some []) [hd mockPresets] = Inr None \<and>
   selectPreset (Some ''small'') mockPresets = Inr (Some ''a'') \<and>
   selectPreset (Some ''huge'') mockPresets = Inl (PlainError ''Preset huge not found'')"
proof -
  note t1 = selectPreset_list_order [of None mockPresets "''small''"]
  note t2 = selectPreset_list_order [of "Some []" "[hd mockPresets]" "''huge''"]
  have d: "selectPreset None mockPresets = Inr (Some (preset_ID (mockPresets ! Suc 0)))"
    using t1 [THEN conjunct1, rule_format, THEN conjunct1, rule_format, of "Suc 0"]
    by (simp add: truthy_def mockPresets_def)
  have n: "selectPreset (Some []) [hd mockPresets] = Inr None"
    using t2 [THEN conjunct1, rule_format, THEN conjunct2, rule_format]
    by (simp add: truthy_def mockPresets_def)
  have s: "selectPreset (Some ''small'') mockPresets = Inr (Some (preset_ID (mockPresets ! 0)))"
    using t1 [THEN conjunct2, rule_format, THEN conjunct1, rule_format, of 0]
    by (simp add: mockPresets_def)
  have absent: "\<And>p. p \<in> set mockPresets \<Longrightarrow> preset_Name p \<noteq> ''huge''"
    by (auto simp: mockPresets_def)
  have h: "selectPreset (Some ''huge'') mockPresets
             = Inl (PlainError (''Preset '' @ ''huge'' @ '' not found''))"
    using selectPreset_list_order [of None mockPresets "''huge''",
        THEN conjunct2, rule_format, THEN conjunct2, rule_format, OF _ absent]
    by simp
  show ?thesis using d n s h by (simp add: mockPresets_def)
qed

section \<open>The request layer\<close>

lemma request_world: "snd (request e ep w) = perform e (Fetch ep) w"
  by (simp add: request_def andThen_def fetch_def throw_def succeed_def
      split: option.splits)

lemma request_result:
  "fst (request e ep w) =
     (case fetch_outcome e (trace w) ep of
        None \<Rightarrow> Inl TypeError
      | Some r \<Rightarrow>
          if \<not> resp_ok r then
            Inl (CoderAPIError (''Coder API error: '' @ resp_statusText r) (resp_status r)
                   (BodyText (case resp_text r of None \<Rightarrow> [] | Some body \<Rightarrow> body)))
          else if resp_status r = 204 \<or> resp_content_length r = Some ''0'' then Inr None
          else (case resp_json r of None \<Rightarrow> Inl SyntaxError | Some j \<Rightarrow> Inr (Some j)))"
  by (simp add: request_def andThen_def fetch_def throw_def succeed_def
      split: option.splits)

lemma request_eq:
  "request e ep w = (fst (request e ep w), perform e (Fetch ep) w)"
  using request_world [of e ep w] by (metis prod.collapse)

text \<open>
  C7. What \<open>request\<close> does with the response that \<open>fetch\<close> delivers. When the status
  is not in the range 200 to 299, it throws a \<open>CoderAPIError\<close> with that status code
  and the body text, the empty text when the body cannot be read. When the status is in
  the range and is 204, or the \<open>content-length\<close> header is "0", it returns the empty
  result and never looks at the JSON of the body. The length of the body itself is never
  tested: every other response in the range is parsed as JSON, also one whose body has
  length zero, and then the parse error is thrown, where the specification and the
  comment at the test ("Handle 204 No Content and other responses with no body")
  promise the empty result.
\<close>

theorem request_classifies_response:
  "fetch_outcome e (trace w) ep = Some r \<Longrightarrow>
     (\<not> resp_ok r \<longrightarrow>
        request e ep w =
          (Inl (CoderAPIError (''Coder API error: '' @ resp_statusText r) (resp_status r)
                  (BodyText (case resp_text r of None \<Rightarrow> [] | Some body \<Rightarrow> body))),
           perform e (Fetch ep) w)) \<and>
     (resp_ok r \<and> (resp_status r = 204 \<or> resp_content_length r = Some ''0'') \<longrightarrow>
        request e ep w = (Inr None, perform e (Fetch ep) w)) \<and>
     (resp_ok r \<and> resp_status r \<noteq> 204 \<and> resp_content_length r \<noteq> Some ''0'' \<longrightarrow>
        request e ep w =
          ((case resp_json r of None \<Rightarrow> Inl SyntaxError | Some j \<Rightarrow> Inr (Some j)),
           perform e (Fetch ep) w))"
  using request_eq [of e ep w] by (simp add: request_result)

theorem request_classifies_response_witness:
  "request (always (error_response 500 ''Internal Server Error'' None)) (GetTasks ''testuser'') w0
     = (Inl (CoderAPIError ''Coder API error: Internal Server Error'' 500 (BodyText [])),
        perform (always (error_response 500 ''Internal Server Error'' None)) (Fetch (GetTasks ''testuser'')) w0) \<and>
   request (always (error_response 400 ''Bad Request'' (Some ''no''))) (GetTasks ''testuser'') w0
     = (Inl (CoderAPIError ''Coder API error: Bad Request'' 400 (BodyText ''no'')),
        perform (always (error_response 400 ''Bad Request'' (Some ''no''))) (Fetch (GetTasks ''testuser'')) w0) \<and>
   request (always no_content) (GetTasks ''testuser'') w0
     = (Inr None, perform (always no_content) (Fetch (GetTasks ''testuser'')) w0) \<and>
   request (always (json_response JOther)) (GetTasks ''testuser'') w0
     = (Inr (Some JOther), perform (always (json_response JOther)) (Fetch (GetTasks ''testuser'')) w0) \<and>
   request (always empty_body_response) (GetTasks ''testuser'') w0
     = (Inl SyntaxError, perform (always empty_body_response) (Fetch (GetTasks ''testuser'')) w0)"
proof -
  have f: "\<And>r. fetch_outcome (always r) (trace w0) (GetTasks ''testuser'') = Some r"
    by (simp add: always_def)
  show ?thesis
    using request_classifies_response [OF f [of "error_response 500 ''Internal Server Error'' None"]]
      request_classifies_response [OF f [of "error_response 400 ''Bad Request'' (Some ''no'')"]]
      request_classifies_response [OF f [of no_content]]
      request_classifies_response [OF f [of "json_response JOther"]]
      request_classifies_response [OF f [of empty_body_response]]
    by (simp add: error_response_def no_content_def json_response_def resp_ok_def
        empty_body_response_def)
qed

text \<open>
  C7 fails at a response with status 200 and a body of length zero that carries no
  \<open>content-length\<close> header: the body is parsed as JSON, and the parse error is thrown.
\<close>

theorem request_empty_body_is_parsed:
  "resp_ok empty_body_response \<and> resp_text empty_body_response = Some [] \<and>
   fetch_outcome (always empty_body_response) (trace w0) (GetTasks ''testuser'')
     = Some empty_body_response \<and>
   fst (request (always empty_body_response) (GetTasks ''testuser'') w0) = Inl SyntaxError"
  by (simp add: request_result always_def empty_body_response_def resp_ok_def)

section \<open>Printing numbers\<close>

lemma show_nat_digit: "n < 10 \<Longrightarrow> show_nat n = [digit_char n]"
  by (simp add: show_nat.simps)

lemma show_nat_more:
  "\<not> n < 10 \<Longrightarrow> show_nat n = show_nat (n div 10) @ [digit_char (n mod 10)]"
  by (simp add: show_nat.simps)

lemmas show_number = show_int_def show_nat_digit show_nat_more digit_char_def

section \<open>The identity resolver\<close>

lemma getCoderUserByGitHubId_unset:
  "getCoderUserByGitHubId e None w
     = (Inl (CoderAPIError ''GitHub user ID cannot be undefined'' 400 NoResponse), w)"
  "getCoderUserByGitHubId e (Some 0) w = (Inl (ThrownString ''GitHub user ID cannot be 0''), w)"
  by (simp_all add: getCoderUserByGitHubId_def throw_def)

lemma getCoderUserByGitHubId_users:
  assumes "g \<noteq> 0" and "request e (GetUsersByGitHubId g) w = (Inr (Some (JUsers users)), w')"
  shows "getCoderUserByGitHubId e (Some g) w =
     (if length users = 0 then
        Inl (CoderAPIError (''No Coder user found with GitHub user ID '' @ show_int g) 404 NoResponse)
      else if length users > 1 then
        Inl (CoderAPIError (''Multiple Coder users found with GitHub user ID '' @ show_int g) 409 NoResponse)
      else Inr (users ! 0), w')"
  using assms by (simp add: getCoderUserByGitHubId_def andThen_def lift_def throw_def succeed_def)

text \<open>
  C3. User resolution yields exactly one user or fails. An absent id and the id 0 are
  rejected at once, in the world as it was: no request is made. When the search
  returns no user the call fails with status 404; when it returns more than one it
  fails with status 409, and no user is picked; when it returns exactly one user, this
  user is the result.
\<close>

theorem getCoderUserByGitHubId_exactly_one:
  "getCoderUserByGitHubId e None w
     = (Inl (CoderAPIError ''GitHub user ID cannot be undefined'' 400 NoResponse), w) \<and>
   getCoderUserByGitHubId e (Some 0) w
     = (Inl (ThrownString ''GitHub user ID cannot be 0''), w) \<and>
   (g \<noteq> 0 \<and> request e (GetUsersByGitHubId g) w = (Inr (Some (JUsers users)), w') \<longrightarrow>
      trace w' = trace w @ [Fetch (GetUsersByGitHubId g)] \<and>
      (users = [] \<longrightarrow>
         getCoderUserByGitHubId e (Some g) w =
           (Inl (CoderAPIError (''No Coder user found with GitHub user ID '' @ show_int g)
                   404 NoResponse), w')) \<and>
      (1 < length users \<longrightarrow>
         getCoderUserByGitHubId e (Some g) w =
           (Inl (CoderAPIError (''Multiple Coder users found with GitHub user ID '' @ show_int g)
                   409 NoResponse), w')) \<and>
      (\<forall>u. users = [u] \<longrightarrow> getCoderUserByGitHubId e (Some g) w = (Inr u, w')))"
proof -
  have "trace w' = trace w @ [Fetch (GetUsersByGitHubId g)]"
    if "request e (GetUsersByGitHubId g) w = (Inr (Some (JUsers users)), w')"
    using that request_world [of e "GetUsersByGitHubId g" w] by (simp add: perform_def)
  then show ?thesis
    by (auto simp: getCoderUserByGitHubId_unset getCoderUserByGitHubId_users)
qed

theorem getCoderUserByGitHubId_exactly_one_witness:
  "fst (getCoderUserByGitHubId mock_env (Some 12345) w0) = Inr mockUser \<and>
   fst (getCoderUserByGitHubId mock_env (Some 7) w0)
     = Inl (CoderAPIError ''No Coder user found with GitHub user ID 7'' 404 NoResponse) \<and>
   fst (getCoderUserByGitHubId two_users (Some 12345) w0)
     = Inl (CoderAPIError ''Multiple Coder users found with GitHub user ID 12345'' 409 NoResponse) \<and>
   getCoderUserByGitHubId mock_env (Some 0) w0
     = (Inl (ThrownString ''GitHub user ID cannot be 0''), w0)"
proof -
  have r1: "request mock_env (GetUsersByGitHubId 12345) w0
      = (Inr (Some (JUsers [mockUser])), perform mock_env (Fetch (GetUsersByGitHubId 12345)) w0)"
    using request_eq [of mock_env "GetUsersByGitHubId 12345" w0]
    by (simp add: request_result mock_env_def mock_fetch_def json_response_def resp_ok_def)
  have r2: "request mock_env (GetUsersByGitHubId 7) w0
      = (Inr (Some (JUsers [])), perform mock_env (Fetch (GetUsersByGitHubId 7)) w0)"
    using request_eq [of mock_env "GetUsersByGitHubId 7" w0]
    by (simp add: request_result mock_env_def mock_fetch_def json_response_def resp_ok_def)
  have r3: "request two_users (GetUsersByGitHubId 12345) w0
      = (Inr (Some (JUsers [mockUser, mockUser\<lparr>username := ''other''\<rparr>])),
         perform two_users (Fetch (GetUsersByGitHubId 12345)) w0)"
    using request_eq [of two_users "GetUsersByGitHubId 12345" w0]
    by (simp add: request_result two_users_def always_def json_response_def resp_ok_def)
  have s7: "show_int 7 = ''7''" by (simp add: show_number)
  have s12345: "show_int 12345 = ''12345''" by (simp add: show_number)
  have n1: "(12345::int) \<noteq> 0 \<and> request mock_env (GetUsersByGitHubId 12345) w0
      = (Inr (Some (JUsers [mockUser])), perform mock_env (Fetch (GetUsersByGitHubId 12345)) w0)"
    using r1 by simp
  have n2: "(7::int) \<noteq> 0 \<and> request mock_env (GetUsersByGitHubId 7) w0
      = (Inr (Some (JUsers [])), perform mock_env (Fetch (GetUsersByGitHubId 7)) w0)"
    using r2 by simp
  have n3: "(12345::int) \<noteq> 0 \<and> request two_users (GetUsersByGitHubId 12345) w0
      = (Inr (Some (JUsers [mockUser, mockUser\<lparr>username := ''other''\<rparr>])),
         perform two_users (Fetch (GetUsersByGitHubId 12345)) w0)"
    using r3 by simp
  note t = getCoderUserByGitHubId_exactly_one [THEN conjunct2, THEN conjunct2, rule_format]
  have k1: "getCoderUserByGitHubId mock_env (Some 12345) w0
      = (Inr mockUser, perform mock_env (Fetch (GetUsersByGitHubId 12345)) w0)"
    using t [OF n1] by blast
  have k2: "getCoderUserByGitHubId mock_env (Some 7) w0
      = (Inl (CoderAPIError (''No Coder user found with GitHub user ID '' @ show_int 7)
                   404 NoResponse), perform mock_env (Fetch (GetUsersByGitHubId 7)) w0)"
    using t [OF n2] by blast
  have k3: "getCoderUserByGitHubId two_users (Some 12345) w0
      = (Inl (CoderAPIError (''Multiple Coder users found with GitHub user ID '' @ show_int 12345)
                   409 NoResponse), perform two_users (Fetch (GetUsersByGitHubId 12345)) w0)"
    using t [OF n3] by simp
  have k4: "getCoderUserByGitHubId mock_env (Some 0) w0
     = (Inl (ThrownString ''GitHub user ID cannot be 0''), w0)"
    using getCoderUserByGitHubId_exactly_one [of mock_env w0] by blast
  show ?thesis unfolding k1 k2 k3 k4 s7 s12345 by simp
qed

section \<open>The task lookup\<close>

lemma task_list_parse_error:
  "ExperimentalCoderSDKTaskListResponseSchema_parse resp = Inl err \<Longrightarrow> err = ZodError"
  by (cases resp rule: ExperimentalCoderSDKTaskListResponseSchema_parse.cases) auto

lemma getTask_result:
  "request e (GetTasks owner) w = (r, w') \<Longrightarrow>
   getTask e owner name w =
     ((case r of
         Inl err \<Rightarrow> if is_not_found err then Inr None else Inl err
       | Inr resp \<Rightarrow>
           (case ExperimentalCoderSDKTaskListResponseSchema_parse resp of
              Inl err \<Rightarrow> Inl err
            | Inr tasks \<Rightarrow> Inr (find (\<lambda>t. task_name t = name) tasks))), w')"
  by (auto simp: getTask_def catch_def andThen_def lift_def succeed_def throw_def
      split: sum.splits dest: task_list_parse_error)

lemma getTask_world: "snd (getTask e owner name w) = perform e (Fetch (GetTasks owner)) w"
  using getTask_result [OF request_eq] by simp

lemma find_first_index:
  "k < length xs \<Longrightarrow> P (xs ! k) \<Longrightarrow> \<forall>j<k. \<not> P (xs ! j) \<Longrightarrow> find P xs = Some (xs ! k)"
proof (induction xs arbitrary: k)
  case Nil
  then show ?case by simp
next
  case (Cons x xs)
  show ?case
  proof (cases k)
    case 0
    with Cons.prems show ?thesis by simp
  next
    case (Suc k')
    with Cons.prems have "\<not> P x" by auto
    moreover have "\<forall>j<k'. \<not> P (xs ! j)"
    proof (intro allI impI)
      fix j assume "j < k'"
      then have "Suc j < k" using Suc by simp
      with Cons.prems(3) show "\<not> P (xs ! j)" by fastforce
    qed
    then have "find P xs = Some (xs ! k')"
      using Cons.IH [of k'] Cons.prems(1,2) Suc by simp
    ultimately show ?thesis using Suc by simp
  qed
qed

lemma find_none: "\<forall>x\<in>set xs. \<not> P x \<Longrightarrow> find P xs = None"
  by (simp add: find_None_iff)

text \<open>
  C8. The task lookup tells absence from failure. A response with status 404 gives
  "no task" and no failure. Every other failure of the request (a rejected fetch, another
  status outside 200 to 299, a body that is no JSON) and a body that fails the schema
  are thrown on. When the list arrives, the result is the first task in it whose name
  is exactly the task name, and "no task" when no task has this name.
\<close>

theorem getTask_absence_or_failure:
  "(fetch_outcome e (trace w) (GetTasks owner) = Some r \<and> resp_status r = 404 \<longrightarrow>
      getTask e owner name w = (Inr None, perform e (Fetch (GetTasks owner)) w)) \<and>
   (request e (GetTasks owner) w = (Inl err, w') \<and> \<not> is_not_found err \<longrightarrow>
      getTask e owner name w = (Inl err, w')) \<and>
   (request e (GetTasks owner) w = (Inr resp, w') \<and>
    ExperimentalCoderSDKTaskListResponseSchema_parse resp = Inl err \<longrightarrow>
      getTask e owner name w = (Inl err, w')) \<and>
   (request e (GetTasks owner) w = (Inr (Some (JTasks tasks)), w') \<longrightarrow>
      ((\<forall>t\<in>set tasks. task_name t \<noteq> name) \<longrightarrow> getTask e owner name w = (Inr None, w')) \<and>
      (\<forall>k. k < length tasks \<and> task_name (tasks ! k) = name \<and>
            (\<forall>j<k. task_name (tasks ! j) \<noteq> name)
         \<longrightarrow> getTask e owner name w = (Inr (Some (tasks ! k)), w')))"
proof -
  have a: "getTask e owner name w = (Inr None, perform e (Fetch (GetTasks owner)) w)"
    if "fetch_outcome e (trace w) (GetTasks owner) = Some r" and "resp_status r = 404"
  proof -
    have "fst (request e (GetTasks owner) w)
        = Inl (CoderAPIError (''Coder API error: '' @ resp_statusText r) 404
                 (BodyText (case resp_text r of None \<Rightarrow> [] | Some body \<Rightarrow> body)))"
      using that by (simp add: request_result resp_ok_def)
    then show ?thesis
      using getTask_result [OF request_eq] by simp
  qed
  have b: "getTask e owner name w = (Inl err, w')"
    if "request e (GetTasks owner) w = (Inl err, w')" and "\<not> is_not_found err"
    using getTask_result [OF that(1)] that(2) by simp
  have c: "getTask e owner name w = (Inl err, w')"
    if "request e (GetTasks owner) w = (Inr resp, w')"
      and "ExperimentalCoderSDKTaskListResponseSchema_parse resp = Inl err"
    using getTask_result [OF that(1)] that(2) by simp
  have d: "getTask e owner name w = (Inr (find (\<lambda>t. task_name t = name) tasks), w')"
    if "request e (GetTasks owner) w = (Inr (Some (JTasks tasks)), w')"
    using getTask_result [OF that] by simp
  show ?thesis
    using a b c d
    by (auto simp: find_none find_first_index [of _ _ "\<lambda>t. task_name t = name"])
qed


theorem getTask_absence_or_failure_witness:
  "fst (getTask (always (error_response 404 ''Not Found'' None)) ''testuser'' ''gh-42'' w0)
     = Inr None \<and>
   fst (getTask (always (error_response 500 ''Internal Server Error'' None)) ''testuser'' ''gh-42'' w0)
     = Inl (CoderAPIError ''Coder API error: Internal Server Error'' 500 (BodyText [])) \<and>
   fst (getTask offline ''testuser'' ''gh-42'' w0) = Inl TypeError \<and>
   fst (getTask (always (json_response JOther)) ''testuser'' ''gh-42'' w0) = Inl ZodError \<and>
   fst (getTask mock_env ''testuser'' ''gh-42'' w0) = Inr None \<and>
   fst (getTask mock_env ''testuser'' ''gh-42'' after_create)
     = Inr (Some (mockTask ''gh-42'' Active (Some Idle)))"
proof -
  let ?nf = "always (error_response 404 ''Not Found'' None)"
  let ?ise = "always (error_response 500 ''Internal Server Error'' None)"
  let ?other = "always (json_response JOther)"
  let ?ep = "GetTasks ''testuser''"
  have f: "fetch_outcome ?nf (trace w0) ?ep = Some (error_response 404 ''Not Found'' None)
           \<and> resp_status (error_response 404 ''Not Found'' None) = 404"
    by (simp add: always_def error_response_def)
  have k1: "getTask ?nf ''testuser'' ''gh-42'' w0 = (Inr None, perform ?nf (Fetch ?ep) w0)"
    using getTask_absence_or_failure [THEN conjunct1, rule_format, OF f] .
  have r2: "request ?ise ?ep w0
      = (Inl (CoderAPIError ''Coder API error: Internal Server Error'' 500 (BodyText [])),
         perform ?ise (Fetch ?ep) w0)"
    using request_eq [of ?ise ?ep w0]
    by (simp add: request_result always_def error_response_def resp_ok_def)
  have k2: "getTask ?ise ''testuser'' ''gh-42'' w0
      = (Inl (CoderAPIError ''Coder API error: Internal Server Error'' 500 (BodyText [])),
         perform ?ise (Fetch ?ep) w0)"
    using getTask_absence_or_failure [THEN conjunct2, THEN conjunct1, rule_format,
        OF conjI [OF r2]] by simp
  have r3: "request offline ?ep w0 = (Inl TypeError, perform offline (Fetch ?ep) w0)"
    using request_eq [of offline ?ep w0] by (simp add: request_result offline_def)
  have k3: "getTask offline ''testuser'' ''gh-42'' w0
      = (Inl TypeError, perform offline (Fetch ?ep) w0)"
    using getTask_absence_or_failure [THEN conjunct2, THEN conjunct1, rule_format,
        OF conjI [OF r3]] by simp
  have r4: "request ?other ?ep w0 = (Inr (Some JOther), perform ?other (Fetch ?ep) w0)"
    using request_eq [of ?other ?ep w0]
    by (simp add: request_result always_def json_response_def resp_ok_def)
  have k4: "getTask ?other ''testuser'' ''gh-42'' w0 = (Inl ZodError, perform ?other (Fetch ?ep) w0)"
    using getTask_absence_or_failure [THEN conjunct2, THEN conjunct2, THEN conjunct1,
        rule_format, OF conjI [OF r4]] by simp
  have r5: "request mock_env ?ep w0 = (Inr (Some (JTasks [])), perform mock_env (Fetch ?ep) w0)"
    using request_eq [of mock_env ?ep w0]
    by (simp add: request_result mock_env_def mock_fetch_def json_response_def resp_ok_def
        w0_def)
  have k5: "getTask mock_env ''testuser'' ''gh-42'' w0
      = (Inr None, perform mock_env (Fetch ?ep) w0)"
    using getTask_absence_or_failure [THEN conjunct2, THEN conjunct2, THEN conjunct2,
        rule_format, OF r5, THEN conjunct1] by simp
  have r6: "request mock_env ?ep after_create
      = (Inr (Some (JTasks [mockTask ''gh-42'' Active (Some Idle)])),
         perform mock_env (Fetch ?ep) after_create)"
    using request_eq [of mock_env ?ep after_create]
    by (simp add: request_result mock_env_def mock_fetch_def json_response_def resp_ok_def
        after_create_def)
  have k6: "getTask mock_env ''testuser'' ''gh-42'' after_create
      = (Inr (Some ([mockTask ''gh-42'' Active (Some Idle)] ! 0)),
         perform mock_env (Fetch ?ep) after_create)"
    using getTask_absence_or_failure [THEN conjunct2, THEN conjunct2, THEN conjunct2,
        rule_format, OF r6, THEN conjunct2, rule_format, of 0]
    by (simp add: mockTask_def)
  show ?thesis unfolding k1 k2 k3 k4 k5 k6 by simp
qed

section \<open>The wait for a task\<close>

lemma request_then_parse:
  "andThen (request e ep) (\<lambda>resp. lift (f resp)) w =
     ((case fst (request e ep w) of Inl err \<Rightarrow> Inl err | Inr resp \<Rightarrow> f resp),
      perform e (Fetch ep) w)"
proof (cases "request e ep w")
  case (Pair r w1)
  then have "w1 = perform e (Fetch ep) w" using request_world [of e ep w] by simp
  then show ?thesis using Pair by (simp add: andThen_def lift_def split: sum.splits)
qed

lemma request_result_trace:
  "fst (request e ep \<lparr>clock = c, trace = trace w\<rparr>) = fst (request e ep w)"
  by (simp add: request_result)

lemma getTaskById_result:
  "getTaskById e owner taskId w =
     (poll_result e owner taskId (trace w), perform e (Fetch (GetTaskById owner taskId)) w)"
  unfolding getTaskById_def poll_result_def request_then_parse
  by (simp add: request_result)

lemma poll_rounds_Suc:
  "poll_rounds owner taskId (Suc n)
     = [Fetch (GetTaskById owner taskId), Sleep 2000] @ poll_rounds owner taskId n"
  by (simp add: poll_rounds_def)

lemma after_calls_Nil: "after_calls e w [] = w"
  by (simp add: after_calls_def)

lemma after_calls_round:
  "after_calls e w (poll_rounds owner taskId (Suc n))
     = after_calls e (perform e (Sleep 2000) (perform e (Fetch (GetTaskById owner taskId)) w))
         (poll_rounds owner taskId n)"
  by (simp add: after_calls_def poll_rounds_Suc)

lemma after_calls_trace: "trace (after_calls e w evs) = trace w @ evs"
  unfolding after_calls_def
  by (induction evs arbitrary: w) (simp_all add: perform_def)

lemma ready_wait_outcome_round:
  assumes "clock w - start < timeoutMs"
    and "poll_result e owner taskId (trace w) = Inr t" and "task_waiting t"
    and "ready_wait_outcome e owner taskId timeoutMs start
           (perform e (Sleep 2000) (perform e (Fetch (GetTaskById owner taskId)) w)) n r w'"
  shows "ready_wait_outcome e owner taskId timeoutMs start w (Suc n) r w'"
proof -
  let ?w2 = "perform e (Sleep 2000) (perform e (Fetch (GetTaskById owner taskId)) w)"
  have rounds: "let wi = after_calls e w (poll_rounds owner taskId i)
                in clock wi - start < timeoutMs \<and>
                   (\<exists>t. poll_result e owner taskId (trace wi) = Inr t \<and> task_waiting t)"
    if "i < Suc n" for i
  proof (cases i)
    case 0
    then show ?thesis using assms(1,2,3) by (simp add: poll_rounds_def after_calls_Nil)
  next
    case (Suc j)
    then have "j < n" using that by simp
    then have "let wi = after_calls e ?w2 (poll_rounds owner taskId j)
                in clock wi - start < timeoutMs \<and>
                   (\<exists>t. poll_result e owner taskId (trace wi) = Inr t \<and> task_waiting t)"
      using assms(4) unfolding ready_wait_outcome_def by blast
    then show ?thesis unfolding Suc after_calls_round .
  qed
  have final: "let wn = after_calls e w (poll_rounds owner taskId (Suc n));
           in_time = (clock wn - start < timeoutMs);
           answer = poll_result e owner taskId (trace wn);
           polled = perform e (Fetch (GetTaskById owner taskId)) wn
       in (in_time \<and> r = Inr () \<and> w' = polled \<and> (\<exists>t. answer = Inr t \<and> task_ready t)) \<or>
          (in_time \<and> (\<exists>t. r = Inl (task_error t) \<and> w' = polled \<and> answer = Inr t
                          \<and> status t = Error)) \<or>
          (in_time \<and> (\<exists>err. r = Inl err \<and> w' = polled \<and> answer = Inl err)) \<or>
          (timeoutMs \<le> clock wn - start \<and> r = Inl (timeout_error timeoutMs) \<and> w' = wn)"
    using assms(4) unfolding ready_wait_outcome_def after_calls_round by blast
  show ?thesis
    unfolding ready_wait_outcome_def using rounds final by blast
qed

lemma wait_loop_outcome:
  "wait_loop e owner taskId timeoutMs start w = (r, w')
   \<Longrightarrow> \<exists>n. ready_wait_outcome e owner taskId timeoutMs start w n r w'"
proof (induction e owner taskId timeoutMs start w rule: wait_loop.induct)
  case (1 e owner taskId timeoutMs start w)
  let ?w1 = "perform e (Fetch (GetTaskById owner taskId)) w"
  show ?case
  proof (cases "clock w - start < timeoutMs")
    case False
    then have "r = Inl (timeout_error timeoutMs)" and "w' = w"
      using "1.prems" by (simp_all add: wait_loop.simps [of e owner taskId timeoutMs start w]
          timeout_error_def)
    then have "ready_wait_outcome e owner taskId timeoutMs start w 0 r w'"
      using False by (simp add: ready_wait_outcome_def poll_rounds_def after_calls_Nil)
    then show ?thesis ..
  next
    case True
    show ?thesis
    proof (cases "poll_result e owner taskId (trace w)")
      case (Inl err)
      then have "r = Inl err" and "w' = ?w1"
        using "1.prems" True
        by (simp_all add: wait_loop.simps [of e owner taskId timeoutMs start w] getTaskById_result)
      then have "ready_wait_outcome e owner taskId timeoutMs start w 0 r w'"
        using Inl True by (simp add: ready_wait_outcome_def poll_rounds_def after_calls_Nil)
      then show ?thesis ..
    next
      case (Inr t)
      consider (err) "status t = Error" | (ready) "task_ready t" | (waiting) "task_waiting t"
        by (auto simp: task_waiting_def)
      then show ?thesis
      proof cases
        case err
        then have "r = Inl (task_error t)" and "w' = ?w1"
          using "1.prems" True Inr
          by (simp_all add: wait_loop.simps [of e owner taskId timeoutMs start w]
              getTaskById_result task_error_def)
        then have "ready_wait_outcome e owner taskId timeoutMs start w 0 r w'"
          using Inr err True by (simp add: ready_wait_outcome_def poll_rounds_def after_calls_Nil)
        then show ?thesis ..
      next
        case ready
        then have "r = Inr ()" and "w' = ?w1"
          using "1.prems" True Inr
          by (simp_all add: wait_loop.simps [of e owner taskId timeoutMs start w]
              getTaskById_result task_ready_def)
        then have "ready_wait_outcome e owner taskId timeoutMs start w 0 r w'"
          using Inr ready True by (simp add: ready_wait_outcome_def poll_rounds_def after_calls_Nil)
        then show ?thesis ..
      next
        case waiting
        then have ne: "status t \<noteq> Error" and nr: "\<not> (status t = Active \<and> current_state t = Some Idle)"
          by (simp_all add: task_waiting_def task_ready_def)
        have step: "wait_loop e owner taskId timeoutMs start (perform e (Sleep 2000) ?w1) = (r, w')"
          using "1.prems" True Inr ne nr
          by (simp add: wait_loop.simps [of e owner taskId timeoutMs start w] getTaskById_result)
        have g: "(Inr t, ?w1) = getTaskById e owner taskId w"
          by (simp add: getTaskById_result Inr)
        have "\<exists>n. ready_wait_outcome e owner taskId timeoutMs start
                   (perform e (Sleep 2000) ?w1) n r w'"
          using "1.IH" [OF True g refl ne nr step] .
        then obtain n where "ready_wait_outcome e owner taskId timeoutMs start
                   (perform e (Sleep 2000) ?w1) n r w'" ..
        then have "ready_wait_outcome e owner taskId timeoutMs start w (Suc n) r w'"
          using ready_wait_outcome_round [OF True Inr waiting] by blast
        then show ?thesis ..
      qed
    qed
  qed
qed

text \<open>The rounds and the outcome of a wait are determined by the remote.\<close>

lemma ready_wait_outcome_unique:
  assumes "ready_wait_outcome e owner taskId timeoutMs start w n r w'"
    and "ready_wait_outcome e owner taskId timeoutMs start w m r2 w2"
  shows "n = m \<and> r = r2 \<and> w' = w2"
proof -
  have less: "\<not> a < b"
    if a: "ready_wait_outcome e owner taskId timeoutMs start w a ra wa"
    and b: "ready_wait_outcome e owner taskId timeoutMs start w b rb wb"
    for a b ra wa rb wb
  proof
    assume "a < b"
    then obtain t where "clock (after_calls e w (poll_rounds owner taskId a)) - start < timeoutMs"
      and "poll_result e owner taskId (trace (after_calls e w (poll_rounds owner taskId a))) = Inr t"
      and "task_waiting t"
      using b unfolding ready_wait_outcome_def Let_def by blast
    then show False
      using a unfolding ready_wait_outcome_def Let_def task_waiting_def by auto
  qed
  have nm: "n = m" using less [OF assms(1,2)] less [OF assms(2,1)] by simp
  have "r = r2 \<and> w' = w2"
    using assms unfolding nm ready_wait_outcome_def Let_def task_ready_def
    by (auto simp: task_error_def)
  then show ?thesis using nm by simp
qed


lemma wait_loop_timeout:
  "\<not> clock w - start < timeoutMs
   \<Longrightarrow> wait_loop e owner taskId timeoutMs start w = (Inl (timeout_error timeoutMs), w)"
  by (simp add: wait_loop.simps [of e owner taskId timeoutMs start w] timeout_error_def)

lemma wait_loop_failed:
  "clock w - start < timeoutMs \<Longrightarrow> poll_result e owner taskId (trace w) = Inl err
   \<Longrightarrow> wait_loop e owner taskId timeoutMs start w
       = (Inl err, perform e (Fetch (GetTaskById owner taskId)) w)"
  by (simp add: wait_loop.simps [of e owner taskId timeoutMs start w] getTaskById_result)

lemma wait_loop_error:
  "clock w - start < timeoutMs \<Longrightarrow> poll_result e owner taskId (trace w) = Inr t
   \<Longrightarrow> status t = Error
   \<Longrightarrow> wait_loop e owner taskId timeoutMs start w
       = (Inl (task_error t), perform e (Fetch (GetTaskById owner taskId)) w)"
  by (simp add: wait_loop.simps [of e owner taskId timeoutMs start w] getTaskById_result
      task_error_def)

lemma wait_loop_ready:
  "clock w - start < timeoutMs \<Longrightarrow> poll_result e owner taskId (trace w) = Inr t
   \<Longrightarrow> task_ready t
   \<Longrightarrow> wait_loop e owner taskId timeoutMs start w
       = (Inr (), perform e (Fetch (GetTaskById owner taskId)) w)"
  by (simp add: wait_loop.simps [of e owner taskId timeoutMs start w] getTaskById_result
      task_ready_def)

lemma wait_loop_again:
  "clock w - start < timeoutMs \<Longrightarrow> poll_result e owner taskId (trace w) = Inr t
   \<Longrightarrow> task_waiting t
   \<Longrightarrow> wait_loop e owner taskId timeoutMs start w
       = wait_loop e owner taskId timeoutMs start
           (perform e (Sleep 2000) (perform e (Fetch (GetTaskById owner taskId)) w))"
  by (auto simp: wait_loop.simps [of e owner taskId timeoutMs start w] getTaskById_result
      task_waiting_def task_ready_def)

text \<open>
  C2. \<open>waitForTaskActive\<close> always returns (the loop is total). It fetches the task
  every 2 seconds, each time before the budget is used up, and ends in one of four ways:
    \<^item> with success at the first fetch that finds the task active and idle;
    \<^item> with the task error (status 500, never a retry) at the first fetch that finds the
      status "error", whatever time has passed since the start;
    \<^item> with the failure of the fetch itself at the first fetch that fails;
    \<^item> with the timeout error (status 408, the message names the budget) when the time
      since the start has reached the budget at the test of the loop, after the task was
      waiting at every fetch; no fetch is made from then on.
  The number of rounds, the outcome and the calls made are determined by the remote.
  When every fetch delivers a task, the first, second and fourth outcomes are the only
  ones, and when the task is waiting at every fetch the wait ends with the timeout
  error.
\<close>

theorem waitForTaskActive_outcomes:
  assumes "waitForTaskActive e owner taskId timeoutMs w = (r, w')"
  shows "(\<exists>n. ready_wait_outcome e owner taskId timeoutMs (clock w) w n r w' \<and>
              (\<forall>m r2 w2. ready_wait_outcome e owner taskId timeoutMs (clock w) w m r2 w2
                 \<longrightarrow> m = n \<and> r2 = r \<and> w2 = w')) \<and>
         ((\<forall>tr. \<exists>t. poll_result e owner taskId tr = Inr t) \<longrightarrow>
            r = Inr () \<or> (\<exists>t. r = Inl (task_error t) \<and> status t = Error) \<or>
            r = Inl (timeout_error timeoutMs)) \<and>
         ((\<forall>tr. \<exists>t. poll_result e owner taskId tr = Inr t \<and> task_waiting t) \<longrightarrow>
            r = Inl (timeout_error timeoutMs) \<and> timeoutMs \<le> clock w' - clock w)"
proof -
  obtain n where n: "ready_wait_outcome e owner taskId timeoutMs (clock w) w n r w'"
    using wait_loop_outcome assms unfolding waitForTaskActive_def by blast
  have only: "\<forall>m r2 w2. ready_wait_outcome e owner taskId timeoutMs (clock w) w m r2 w2
                 \<longrightarrow> m = n \<and> r2 = r \<and> w2 = w'"
    using ready_wait_outcome_unique [OF n] by blast
  let ?wn = "after_calls e w (poll_rounds owner taskId n)"
  have three: "r = Inr () \<or> (\<exists>t. r = Inl (task_error t) \<and> status t = Error) \<or>
            r = Inl (timeout_error timeoutMs)"
    if delivered: "\<forall>tr. \<exists>t. poll_result e owner taskId tr = Inr t"
  proof -
    obtain t where "poll_result e owner taskId (trace ?wn) = Inr t"
      using delivered by blast
    then show ?thesis using n unfolding ready_wait_outcome_def Let_def by auto
  qed
  have timeout: "r = Inl (timeout_error timeoutMs) \<and> timeoutMs \<le> clock w' - clock w"
    if stays: "\<forall>tr. \<exists>t. poll_result e owner taskId tr = Inr t \<and> task_waiting t"
  proof -
    obtain t where "poll_result e owner taskId (trace ?wn) = Inr t"
      and "task_waiting t"
      using stays by blast
    then show ?thesis
      using n unfolding ready_wait_outcome_def Let_def task_waiting_def by auto
  qed
  show ?thesis using n only three timeout by blast
qed

lemma poll_result_always:
  "poll_result (always (json_response (JTask t))) owner tid tr = Inr t"
  unfolding poll_result_def getTaskById_def request_then_parse
  by (simp add: request_result always_def json_response_def resp_ok_def)

lemma poll_result_task_after:
  "poll_result (task_after k st cs) owner tid tr =
     Inr (if count_polls tr < k then mockTask (drop 3 tid) Pending None
          else mockTask (drop 3 tid) st cs)"
  unfolding poll_result_def getTaskById_def request_then_parse
  by (simp add: request_result task_after_def json_response_def resp_ok_def)

lemma perform_mock:
  "perform (task_after k st cs) ev w = \<lparr>clock = clock w + int (base_ms ev + 5), trace = trace w @ [ev]\<rparr>"
  "perform (always r) ev w = \<lparr>clock = clock w + int (base_ms ev + 5), trace = trace w @ [ev]\<rparr>"
  by (simp_all add: perform_def task_after_def always_def mock_env_def)

lemma wait_example_ready: "waitForTaskActive (task_after 2 Active (Some Idle)) ''testuser'' ''id-gh-42'' 7000 w0
    = (Inr (), \<lparr>clock = 4025, trace = poll_rounds ''testuser'' ''id-gh-42'' 2
                                    @ [Fetch (GetTaskById ''testuser'' ''id-gh-42'')]\<rparr>)"
  by (simp add: waitForTaskActive_def wait_loop.simps getTaskById_result poll_result_task_after
      perform_mock w0_def poll_rounds_def mockTask_def numeral_2_eq_2)

lemma wait_example_error: "waitForTaskActive (always (json_response (JTask (mockTask ''gh-42'' Error None))))
      ''testuser'' ''id-gh-42'' 1 w0
    = (Inl (task_error (mockTask ''gh-42'' Error None)),
       \<lparr>clock = 5, trace = [Fetch (GetTaskById ''testuser'' ''id-gh-42'')]\<rparr>)"
  by (simp add: waitForTaskActive_def wait_loop.simps getTaskById_result poll_result_always
      perform_mock w0_def mockTask_def task_error_def)


theorem waitForTaskActive_outcomes_witness:
  "waitForTaskActive (task_after 2 Active (Some Idle)) ''testuser'' ''id-gh-42'' 7000 w0
     = (Inr (), \<lparr>clock = 4025, trace = poll_rounds ''testuser'' ''id-gh-42'' 2
                                     @ [Fetch (GetTaskById ''testuser'' ''id-gh-42'')]\<rparr>) \<and>
   (\<exists>n. ready_wait_outcome (task_after 2 Active (Some Idle)) ''testuser'' ''id-gh-42'' 7000
          (clock w0) w0 n (Inr ())
          \<lparr>clock = 4025, trace = poll_rounds ''testuser'' ''id-gh-42'' 2
                                  @ [Fetch (GetTaskById ''testuser'' ''id-gh-42'')]\<rparr>) \<and>
   waitForTaskActive (always (json_response (JTask (mockTask ''gh-42'' Error None))))
       ''testuser'' ''id-gh-42'' 1 w0
     = (Inl (task_error (mockTask ''gh-42'' Error None)),
        \<lparr>clock = 5, trace = [Fetch (GetTaskById ''testuser'' ''id-gh-42'')]\<rparr>) \<and>
   (fst (waitForTaskActive (always (json_response (JTask (mockTask ''gh-42'' Error None))))
           ''testuser'' ''id-gh-42'' 1 w0) = Inr () \<or>
    (\<exists>t. fst (waitForTaskActive (always (json_response (JTask (mockTask ''gh-42'' Error None))))
                ''testuser'' ''id-gh-42'' 1 w0) = Inl (task_error t) \<and> status t = Error) \<or>
    fst (waitForTaskActive (always (json_response (JTask (mockTask ''gh-42'' Error None))))
           ''testuser'' ''id-gh-42'' 1 w0) = Inl (timeout_error 1)) \<and>
   fst (waitForTaskActive (always (json_response (JTask (mockTask ''gh-42'' Pending None))))
          ''testuser'' ''id-gh-42'' 3000 w0)
     = Inl (timeout_error 3000) \<and>
   3000 \<le> clock (snd (waitForTaskActive
                         (always (json_response (JTask (mockTask ''gh-42'' Pending None))))
                         ''testuser'' ''id-gh-42'' 3000 w0)) - clock w0"
proof -
  let ?pending = "always (json_response (JTask (mockTask ''gh-42'' Pending None)))"
  let ?broken = "always (json_response (JTask (mockTask ''gh-42'' Error None)))"
  have ready: "\<exists>n. ready_wait_outcome (task_after 2 Active (Some Idle)) ''testuser'' ''id-gh-42''
          7000 (clock w0) w0 n (Inr ())
          \<lparr>clock = 4025, trace = poll_rounds ''testuser'' ''id-gh-42'' 2
                                  @ [Fetch (GetTaskById ''testuser'' ''id-gh-42'')]\<rparr>"
    using waitForTaskActive_outcomes [OF wait_example_ready] by blast
  have delivered: "\<And>tr. \<exists>t. poll_result ?broken ''testuser'' ''id-gh-42'' tr = Inr t"
    by (simp add: poll_result_always)
  have three: "fst (waitForTaskActive ?broken ''testuser'' ''id-gh-42'' 1 w0) = Inr () \<or>
    (\<exists>t. fst (waitForTaskActive ?broken ''testuser'' ''id-gh-42'' 1 w0) = Inl (task_error t)
          \<and> status t = Error) \<or>
    fst (waitForTaskActive ?broken ''testuser'' ''id-gh-42'' 1 w0) = Inl (timeout_error 1)"
    using waitForTaskActive_outcomes [OF prod.collapse [symmetric], THEN conjunct2,
        THEN conjunct1, rule_format, OF delivered, of 1 w0] .
  have stays: "\<And>tr. \<exists>t. poll_result ?pending ''testuser'' ''id-gh-42'' tr = Inr t \<and> task_waiting t"
    by (simp add: poll_result_always task_waiting_def task_ready_def mockTask_def)
  have timeout: "fst (waitForTaskActive ?pending ''testuser'' ''id-gh-42'' 3000 w0)
        = Inl (timeout_error 3000) \<and>
      3000 \<le> clock (snd (waitForTaskActive ?pending ''testuser'' ''id-gh-42'' 3000 w0)) - clock w0"
    using waitForTaskActive_outcomes [OF prod.collapse [symmetric], THEN conjunct2,
        THEN conjunct2, rule_format, OF stays, of 3000 w0] .
  show ?thesis using wait_example_ready ready wait_example_error three timeout by blast
qed

text \<open>
  C2 with its three outcomes fails when the fetch of the task fails: the wait ends with
  the failure of the fetch, which is none of the three. On a remote that answers 503 the
  wait ends at its first fetch with the API error of status 503; without a network it
  ends with the error of \<open>fetch\<close>.
\<close>

theorem waitForTaskActive_fetch_failure:
  "waitForTaskActive (always (error_response 503 ''Service Unavailable'' None))
       ''testuser'' ''id-gh-42'' 7000 w0
     = (Inl (CoderAPIError ''Coder API error: Service Unavailable'' 503 (BodyText [])),
        \<lparr>clock = 5, trace = [Fetch (GetTaskById ''testuser'' ''id-gh-42'')]\<rparr>) \<and>
   CoderAPIError ''Coder API error: Service Unavailable'' 503 (BodyText []) \<noteq> timeout_error 7000 \<and>
   (\<forall>t. CoderAPIError ''Coder API error: Service Unavailable'' 503 (BodyText []) \<noteq> task_error t) \<and>
   waitForTaskActive offline ''testuser'' ''id-gh-42'' 7000 w0
     = (Inl TypeError, \<lparr>clock = 5, trace = [Fetch (GetTaskById ''testuser'' ''id-gh-42'')]\<rparr>) \<and>
   TypeError \<noteq> timeout_error 7000 \<and> (\<forall>t. TypeError \<noteq> task_error t)"
proof -
  have down: "poll_result (always (error_response 503 ''Service Unavailable'' None))
        ''testuser'' ''id-gh-42'' tr
      = Inl (CoderAPIError ''Coder API error: Service Unavailable'' 503 (BodyText []))" for tr
    unfolding poll_result_def getTaskById_def request_then_parse
    by (simp add: request_result always_def error_response_def resp_ok_def)
  have off: "poll_result offline ''testuser'' ''id-gh-42'' tr = Inl TypeError" for tr
    unfolding poll_result_def getTaskById_def request_then_parse
    by (simp add: request_result offline_def)
  have p: "perform offline ev w
      = \<lparr>clock = clock w + int (base_ms ev + 5), trace = trace w @ [ev]\<rparr>" for ev w
    by (simp add: perform_def offline_def mock_env_def)
  show ?thesis
    by (simp add: waitForTaskActive_def wait_loop.simps getTaskById_result down off
        perform_mock p w0_def timeout_error_def task_error_def)
qed

section \<open>Kinds of calls in a trace\<close>

text \<open>The calls to the notification sink, that is to the issue comments of GitHub.\<close>

fun is_github_event :: "event \<Rightarrow> bool" where
  "is_github_event (ListComments owner repo n) = True"
| "is_github_event (UpdateComment owner repo cid body) = True"
| "is_github_event (CreateComment owner repo n body) = True"
| "is_github_event ev = False"

text \<open>From \<open>w\<close> to \<open>w'\<close> calls were added to the trace, and all of them satisfy \<open>P\<close>.\<close>

definition only_calls :: "(event \<Rightarrow> bool) \<Rightarrow> world \<Rightarrow> world \<Rightarrow> bool" where
  "only_calls P w w' = (\<exists>evs. trace w' = trace w @ evs \<and> list_all P evs)"

section \<open>The steps of the run\<close>

lemma only_calls_refl: "only_calls P w w"
  by (simp add: only_calls_def)

lemma only_calls_trans:
  "only_calls P w w1 \<Longrightarrow> only_calls P w1 w2 \<Longrightarrow> only_calls P w w2"
  unfolding only_calls_def by (metis append_assoc list_all_append)

lemma only_calls_perform: "P ev \<Longrightarrow> only_calls P w (perform e ev w)"
  by (simp add: only_calls_def perform_def)

lemma only_calls_weaken:
  "only_calls P w w' \<Longrightarrow> (\<And>ev. P ev \<Longrightarrow> Q ev) \<Longrightarrow> only_calls Q w w'"
  unfolding only_calls_def list_all_iff by blast

lemma request_calls: "request e ep w = (r, w') \<Longrightarrow> P (Fetch ep) \<Longrightarrow> only_calls P w w'"
  using request_world [of e ep w] by (simp add: only_calls_perform)

lemma createTask_result:
  "createTask e owner params w =
     ((case fst (request e (PostTask owner params) w) of
         Inl err \<Rightarrow> Inl err | Inr resp \<Rightarrow> ExperimentalCoderSDKTaskSchema_parse resp),
      perform e (Fetch (PostTask owner params)) w)"
  unfolding createTask_def by (rule request_then_parse)

lemma sendTaskInput_result:
  "sendTaskInput e owner taskId input w =
     ((case fst (request e (PostTaskSend owner taskId input) w) of
         Inl err \<Rightarrow> Inl err | Inr resp \<Rightarrow> Inr ()),
      perform e (Fetch (PostTaskSend owner taskId input)) w)"
proof -
  have "succeed () = lift (Inr ())"
    by (simp add: succeed_def lift_def fun_eq_iff)
  then have "sendTaskInput e owner taskId input
      = andThen (request e (PostTaskSend owner taskId input)) (\<lambda>resp. lift (Inr ()))"
    by (simp add: sendTaskInput_def)
  then show ?thesis by (simp add: request_then_parse)
qed

lemma getTask_calls:
  "getTask e owner name w = (r, w') \<Longrightarrow> P (Fetch (GetTasks owner)) \<Longrightarrow> only_calls P w w'"
  using getTask_world [of e owner name w] by (simp add: only_calls_perform)

lemma createTask_calls:
  "createTask e owner params w = (r, w') \<Longrightarrow> P (Fetch (PostTask owner params))
   \<Longrightarrow> only_calls P w w'"
  by (auto simp: createTask_result only_calls_perform)

lemma sendTaskInput_calls:
  "sendTaskInput e owner taskId input w = (r, w') \<Longrightarrow> P (Fetch (PostTaskSend owner taskId input))
   \<Longrightarrow> only_calls P w w'"
  by (auto simp: sendTaskInput_result only_calls_perform)

lemma poll_rounds_all:
  "P (Fetch (GetTaskById owner taskId)) \<Longrightarrow> P (Sleep 2000)
   \<Longrightarrow> list_all P (poll_rounds owner taskId n)"
  by (induction n) (simp_all add: poll_rounds_def)

lemma waitForTaskActive_calls:
  assumes "waitForTaskActive e owner taskId timeoutMs w = (r, w')"
    and "P (Fetch (GetTaskById owner taskId))" and "P (Sleep 2000)"
  shows "only_calls P w w'"
proof -
  obtain n where "ready_wait_outcome e owner taskId timeoutMs (clock w) w n r w'"
    using wait_loop_outcome assms(1) unfolding waitForTaskActive_def by blast
  then have "w' = after_calls e w (poll_rounds owner taskId n) \<or>
      w' = perform e (Fetch (GetTaskById owner taskId))
             (after_calls e w (poll_rounds owner taskId n))"
    unfolding ready_wait_outcome_def Let_def by auto
  then have "trace w' = trace w @ poll_rounds owner taskId n \<or>
      trace w' = trace w @ poll_rounds owner taskId n @ [Fetch (GetTaskById owner taskId)]"
    using after_calls_trace [of e w "poll_rounds owner taskId n"]
    by (auto simp: perform_def)
  then show ?thesis
    unfolding only_calls_def using poll_rounds_all [OF assms(2,3), of n] assms(2)
    by auto
qed

lemma andThen_cases:
  "andThen m f w = (r, w') \<Longrightarrow>
     (\<exists>err. m w = (Inl err, w') \<and> r = Inl err) \<or> (\<exists>x w1. m w = (Inr x, w1) \<and> f x w1 = (r, w'))"
  by (auto simp: andThen_def split: prod.splits sum.splits)

lemma andThen_Inl: "m w = (Inl err, w1) \<Longrightarrow> andThen m f w = (Inl err, w1)"
  by (simp add: andThen_def)

lemma andThen_Inr: "m w = (Inr x, w1) \<Longrightarrow> andThen m f w = f x w1"
  by (simp add: andThen_def)

lemma succeed_eq: "succeed x w = (r, w') \<longleftrightarrow> r = Inr x \<and> w' = w"
  by (auto simp: succeed_def)

lemma listComments_eq:
  "listComments e owner repo n w =
     (fst (listComments e owner repo n w), perform e (ListComments owner repo n) w)"
  by (simp add: listComments_def)

lemma commentOnIssue_succeeds: "fst (commentOnIssue e taskUrl owner repo n w) = Inr ()"
  by (simp add: commentOnIssue_def Let_def catch_def andThen_def succeed_def listComments_def
      updateComment_def createComment_def split: option.splits)

lemma commentOnIssue_calls:
  "commentOnIssue e taskUrl owner repo n w = (r, w') \<Longrightarrow> only_calls is_github_event w w'"
proof -
  have "only_calls is_github_event w (snd (commentOnIssue e taskUrl owner repo n w))"
    by (simp add: only_calls_def commentOnIssue_def Let_def catch_def andThen_def succeed_def
        listComments_def updateComment_def createComment_def perform_def split: option.splits)
  then show "commentOnIssue e taskUrl owner repo n w = (r, w') \<Longrightarrow> only_calls is_github_event w w'"
    by simp
qed

lemma commentOnIssue_trace:
  "\<exists>gh. trace (snd (commentOnIssue e taskUrl owner repo n w))
          = trace w @ ListComments owner repo n # gh \<and> list_all is_github_event gh"
  by (simp add: commentOnIssue_def Let_def catch_def andThen_def succeed_def listComments_def
      updateComment_def createComment_def perform_def split: option.splits)

lemma ensureTaskRunning_lookup_failed:
  "getTask e (username (coderUser c)) (taskName c) w = (Inl err, w1)
   \<Longrightarrow> ensureTaskRunning e inputs c w = (Inl err, w1)"
  by (simp add: ensureTaskRunning_def andThen_def)

lemma ensureTaskRunning_existing:
  "getTask e (username (coderUser c)) (taskName c) w = (Inr (Some t), w1)
   \<Longrightarrow> ensureTaskRunning e inputs c w =
        andThen (if status t \<noteq> Active
                 then waitForTaskActive e (username (coderUser c)) (task_id t) 1200000
                 else succeed ()) (\<lambda>_.
        andThen (sendTaskInput e (username (coderUser c)) (task_id t) (coderTaskPrompt inputs)) (\<lambda>_.
          succeed \<lparr>out_coderUsername = username (coderUser c),
                   out_taskName = task_name t,
                   out_taskUrl = generateTaskUrl inputs (username (coderUser c)) (task_id t),
                   out_taskCreated = False\<rparr>)) w1"
  by (simp add: ensureTaskRunning_def andThen_def)

lemma ensureTaskRunning_absent:
  "getTask e (username (coderUser c)) (taskName c) w = (Inr None, w1)
   \<Longrightarrow> ensureTaskRunning e inputs c w =
        andThen (createTask e (username (coderUser c)) (createTaskRequest inputs c)) (\<lambda>createdTask.
          andThen (if commentOnIssueInput inputs
                   then commentOnIssue e
                          (generateTaskUrl inputs (username (coderUser c)) (task_id createdTask))
                          (githubOrg c) (githubRepo c) (githubIssueNumber c)
                   else succeed ()) (\<lambda>_.
            succeed \<lparr>out_coderUsername = username (coderUser c),
                     out_taskName = taskName c,
                     out_taskUrl = generateTaskUrl inputs (username (coderUser c)) (task_id createdTask),
                     out_taskCreated = True\<rparr>)) w1"
  by (simp add: ensureTaskRunning_def andThen_def Let_def)

lemma ensureTaskRunning_created_flag:
  assumes "ensureTaskRunning e inputs c w = (Inr out, w')"
  shows "out_taskCreated out
           = (fst (getTask e (username (coderUser c)) (taskName c) w) = Inr None)"
proof (cases "getTask e (username (coderUser c)) (taskName c) w")
  case (Pair r w1)
  show ?thesis
  proof (cases r)
    case (Inl err)
    then show ?thesis using assms ensureTaskRunning_lookup_failed [of e c w err w1] Pair by simp
  next
    case (Inr found)
    show ?thesis
    proof (cases found)
      case None
      then have "out_taskCreated out"
        using assms ensureTaskRunning_absent [of e c w w1 inputs] Pair Inr
        by (auto simp: andThen_def succeed_def split: prod.splits sum.splits if_splits)
      then show ?thesis using Pair Inr None by simp
    next
      case (Some t)
      then have "\<not> out_taskCreated out"
        using assms ensureTaskRunning_existing [of e c w t w1 inputs] Pair Inr
        by (auto simp: andThen_def succeed_def split: prod.splits sum.splits if_splits)
      then show ?thesis using Pair Inr Some by simp
    qed
  qed
qed


section \<open>Get or create\<close>










section \<open>The issue comment comes after a creation only\<close>

lemma andThen_calls:
  assumes "andThen m f w = (r, w')"
    and "\<And>r1 w1. m w = (r1, w1) \<Longrightarrow> only_calls P w w1"
    and "\<And>x w1. m w = (Inr x, w1) \<Longrightarrow> f x w1 = (r, w') \<Longrightarrow> only_calls P w1 w'"
  shows "only_calls P w w'"
  using andThen_cases [OF assms(1)] assms(2,3) only_calls_trans by blast

lemma lift_eq: "lift x w = (r, w') \<longleftrightarrow> r = x \<and> w' = w"
  by (auto simp: lift_def)

lemma throw_eq: "throw err w = (r, w') \<longleftrightarrow> r = Inl err \<and> w' = w"
  by (auto simp: throw_def)

lemma getCoderUserByGitHubId_quiet:
  assumes "getCoderUserByGitHubId e g w = (r, w')"
  shows "only_calls (\<lambda>ev. \<not> is_github_event ev) w w'"
proof (cases "g = None \<or> g = Some 0")
  case True
  then have "w' = w" using assms(1) getCoderUserByGitHubId_unset [of e w] by auto
  then show ?thesis by (simp add: only_calls_refl)
next
  case False
  then obtain n where n: "g = Some n" "n \<noteq> 0" by auto
  have "snd (getCoderUserByGitHubId e (Some n) w) = perform e (Fetch (GetUsersByGitHubId n)) w"
    using n(2) request_eq [of e "GetUsersByGitHubId n" w]
    by (auto simp: getCoderUserByGitHubId_def andThen_def lift_def throw_def succeed_def
        split: prod.splits sum.splits)
  then show ?thesis using assms n by (simp add: only_calls_perform)
qed

lemma getTemplateByOrganizationAndName_quiet:
  "getTemplateByOrganizationAndName e org name w = (r, w')
   \<Longrightarrow> only_calls (\<lambda>ev. \<not> is_github_event ev) w w'"
  by (auto simp: getTemplateByOrganizationAndName_def request_then_parse only_calls_perform)

lemma getTemplateVersionPresets_quiet:
  "getTemplateVersionPresets e v w = (r, w')
   \<Longrightarrow> only_calls (\<lambda>ev. \<not> is_github_event ev) w w'"
  by (auto simp: getTemplateVersionPresets_def request_then_parse only_calls_perform)

lemma resolveRun_quiet:
  assumes "resolveRun e inputs w = (r, w')"
  shows "only_calls (\<lambda>ev. \<not> is_github_event ev) w w'"
proof -
  have still: "only_calls (\<lambda>ev. \<not> is_github_event ev) w1 w2" if "w2 = w1" for w1 w2
    using that by (simp add: only_calls_refl)
  show ?thesis
    using assms(1) unfolding resolveRun_def
    apply (rule andThen_calls)
     apply (erule getCoderUserByGitHubId_quiet)
    apply (erule andThen_calls)
     apply (simp add: lift_eq still)
    apply (simp only: split_paired_all case_prod_conv)
    apply (erule andThen_calls)
     apply (simp add: throw_eq succeed_eq still split: if_splits)
    apply (erule andThen_calls)
     apply (simp add: lift_eq still)
    apply (erule andThen_calls)
     apply (erule getTemplateByOrganizationAndName_quiet)
    apply (erule andThen_calls)
     apply (erule getTemplateVersionPresets_quiet)
    apply (erule andThen_calls)
     apply (simp add: lift_eq still)
    apply (simp add: succeed_eq still)
    done
qed

lemma ensureTaskRunning_existing_quiet:
  assumes g: "getTask e (username (coderUser c)) (taskName c) w = (Inr (Some t), w1)"
    and r: "ensureTaskRunning e inputs c w = (r, w')"
  shows "only_calls (\<lambda>ev. \<not> is_github_event ev) w w' \<and> (\<forall>out. r = Inr out \<longrightarrow> \<not> out_taskCreated out)"
proof -
  let ?Q = "\<lambda>ev. \<not> is_github_event ev"
  have c1: "only_calls ?Q w w1" using getTask_calls [OF g] by simp
  have c2: "only_calls ?Q w1 w'"
    using r unfolding ensureTaskRunning_existing [OF g]
    apply (rule andThen_calls)
     apply (auto simp: succeed_eq only_calls_refl split: if_splits
        intro: waitForTaskActive_calls) [1]
    apply (erule andThen_calls)
     apply (erule sendTaskInput_calls, simp)
    apply (simp add: succeed_eq only_calls_refl)
    done
  have "\<not> out_taskCreated out" if "r = Inr out" for out
    using r that ensureTaskRunning_created_flag [of e inputs c w out w'] g by simp
  then show ?thesis using only_calls_trans [OF c1 c2] by blast
qed

lemma ensureTaskRunning_shape:
  assumes r: "ensureTaskRunning e inputs c w = (r, w')"
  shows "only_calls (\<lambda>ev. \<not> is_github_event ev) w w' \<or>
     (commentOnIssueInput inputs \<and>
      (\<exists>w1 created w2.
         getTask e (username (coderUser c)) (taskName c) w = (Inr None, w1) \<and>
         createTask e (username (coderUser c)) (createTaskRequest inputs c) w1 = (Inr created, w2) \<and>
         only_calls (\<lambda>ev. \<not> is_github_event ev) w w2 \<and>
         only_calls is_github_event w2 w' \<and>
         (\<exists>out. r = Inr out \<and> out_taskCreated out)))"
proof (cases "getTask e (username (coderUser c)) (taskName c) w")
  case (Pair g w1)
  let ?Q = "\<lambda>ev. \<not> is_github_event ev"
  have c1: "only_calls ?Q w w1" using getTask_calls [OF Pair] by simp
  show ?thesis
  proof (cases g)
    case (Inl err)
    then show ?thesis using ensureTaskRunning_lookup_failed [of e c w err w1 inputs] Pair r c1
      by simp
  next
    case (Inr found)
    show ?thesis
    proof (cases found)
      case (Some t)
      then show ?thesis using ensureTaskRunning_existing_quiet [of e c w t w1 inputs r w'] Pair Inr r
        by simp
    next
      case None
      then have g: "getTask e (username (coderUser c)) (taskName c) w = (Inr None, w1)"
        using Pair Inr by simp
      obtain cr w2 where cr: "createTask e (username (coderUser c)) (createTaskRequest inputs c) w1 = (cr, w2)"
        by (cases "createTask e (username (coderUser c)) (createTaskRequest inputs c) w1") auto
      have c2: "only_calls ?Q w1 w2" using createTask_calls [OF cr] by simp
      note c12 = only_calls_trans [OF c1 c2]
      show ?thesis
      proof (cases cr)
        case (Inl err)
        then have "w' = w2" using r cr unfolding ensureTaskRunning_absent [OF g]
          by (simp add: andThen_def)
        then show ?thesis using c12 by simp
      next
        case (Inr created)
        show ?thesis
        proof (cases "commentOnIssueInput inputs")
          case False
          then have "w' = w2" using r cr Inr unfolding ensureTaskRunning_absent [OF g]
            by (simp add: andThen_def succeed_def)
          then show ?thesis using c12 by simp
        next
          case True
          let ?cm = "commentOnIssue e (generateTaskUrl inputs (username (coderUser c)) (task_id created))
                          (githubOrg c) (githubRepo c) (githubIssueNumber c)"
          obtain w3 where cm: "?cm w2 = (Inr (), w3)"
            using commentOnIssue_succeeds [of e _ "githubOrg c" "githubRepo c" "githubIssueNumber c" w2]
            by (metis prod.collapse)
          have "w' = w3 \<and> (\<exists>out. r = Inr out \<and> out_taskCreated out)"
            using r cr Inr True cm unfolding ensureTaskRunning_absent [OF g]
            by (auto simp: andThen_def succeed_def)
          moreover have "only_calls is_github_event w2 w3" using commentOnIssue_calls [OF cm] .
          ultimately show ?thesis using True g cr Inr c12 by blast
        qed
      qed
    qed
  qed
qed

lemma run_cases:
  "run e inputs w = (r, w') \<Longrightarrow>
     (\<exists>err. resolveRun e inputs w = (Inl err, w') \<and> r = Inl err) \<or>
     (\<exists>c w1. resolveRun e inputs w = (Inr c, w1) \<and> ensureTaskRunning e inputs c w1 = (r, w'))"
  unfolding run_def by (rule andThen_cases)

text \<open>
  C10. The issue comment is reached on the creation path only. A run that finds an
  existing task makes no call to the issue comments and does not say created = true,
  whatever the commentOnIssue input is. And every run either makes no call to the issue
  comments, or the commentOnIssue input is true, the lookup found no task, the create
  request succeeded, no call to the issue comments was made up to then, only such calls
  are made afterwards, and the result says created = true.
\<close>

theorem run_comments_after_create_only:
  assumes "run e inputs w = (r, w')"
  shows "(\<forall>c w1 t w2. resolveRun e inputs w = (Inr c, w1) \<and>
             getTask e (username (coderUser c)) (taskName c) w1 = (Inr (Some t), w2)
           \<longrightarrow> only_calls (\<lambda>ev. \<not> is_github_event ev) w w' \<and>
               (\<forall>out. r = Inr out \<longrightarrow> \<not> out_taskCreated out)) \<and>
         (only_calls (\<lambda>ev. \<not> is_github_event ev) w w' \<or>
          (commentOnIssueInput inputs \<and>
           (\<exists>c w1 w2 created w3.
              resolveRun e inputs w = (Inr c, w1) \<and>
              getTask e (username (coderUser c)) (taskName c) w1 = (Inr None, w2) \<and>
              createTask e (username (coderUser c)) (createTaskRequest inputs c) w2
                = (Inr created, w3) \<and>
              only_calls (\<lambda>ev. \<not> is_github_event ev) w w3 \<and>
              only_calls is_github_event w3 w' \<and>
              (\<exists>out. r = Inr out \<and> out_taskCreated out))))"
proof -
  let ?Q = "\<lambda>ev. \<not> is_github_event ev"
  have existing: "only_calls ?Q w w' \<and> (\<forall>out. r = Inr out \<longrightarrow> \<not> out_taskCreated out)"
    if res: "resolveRun e inputs w = (Inr c, w1)"
      and g: "getTask e (username (coderUser c)) (taskName c) w1 = (Inr (Some t), w2)"
    for c w1 t w2
  proof -
    have "ensureTaskRunning e inputs c w1 = (r, w')"
      using run_cases [OF assms] res by auto
    from ensureTaskRunning_existing_quiet [OF g this] resolveRun_quiet [OF res]
    show ?thesis using only_calls_trans by blast
  qed
  have shape: "only_calls ?Q w w' \<or>
          (commentOnIssueInput inputs \<and>
           (\<exists>c w1 w2 created w3.
              resolveRun e inputs w = (Inr c, w1) \<and>
              getTask e (username (coderUser c)) (taskName c) w1 = (Inr None, w2) \<and>
              createTask e (username (coderUser c)) (createTaskRequest inputs c) w2
                = (Inr created, w3) \<and>
              only_calls ?Q w w3 \<and> only_calls is_github_event w3 w' \<and>
              (\<exists>out. r = Inr out \<and> out_taskCreated out)))"
    using run_cases [OF assms]
  proof
    assume "\<exists>err. resolveRun e inputs w = (Inl err, w') \<and> r = Inl err"
    then show ?thesis using resolveRun_quiet by blast
  next
    assume "\<exists>c w1. resolveRun e inputs w = (Inr c, w1) \<and> ensureTaskRunning e inputs c w1 = (r, w')"
    then obtain c w1 where res: "resolveRun e inputs w = (Inr c, w1)"
      and ens: "ensureTaskRunning e inputs c w1 = (r, w')" by blast
    note q = resolveRun_quiet [OF res]
    from ensureTaskRunning_shape [OF ens] show ?thesis
    proof
      assume "only_calls ?Q w1 w'"
      then show ?thesis using only_calls_trans [OF q] by blast
    next
      assume "commentOnIssueInput inputs \<and>
        (\<exists>w2 created w3.
           getTask e (username (coderUser c)) (taskName c) w1 = (Inr None, w2) \<and>
           createTask e (username (coderUser c)) (createTaskRequest inputs c) w2 = (Inr created, w3) \<and>
           only_calls ?Q w1 w3 \<and> only_calls is_github_event w3 w' \<and>
           (\<exists>out. r = Inr out \<and> out_taskCreated out))"
      then show ?thesis using res only_calls_trans [OF q] by blast
    qed
  qed
  show ?thesis using existing shape by blast
qed

section \<open>Whole runs on the concrete remote\<close>

lemma mock_parseGithubIssueURL: "parseGithubIssueURL mock_inputs = Inr (''acme'', ''widgets'', 42)"
  by (simp add: parseGithubIssueURL_def mock_inputs_def match_at_def not_slash_def is_digit_def
      startsWith_def parseInt_def digit_value_def)

lemma request_eval:
  "request e ep w =
     ((case fetch_outcome e (trace w) ep of
         None \<Rightarrow> Inl TypeError
       | Some r \<Rightarrow>
           if \<not> resp_ok r then
             Inl (CoderAPIError (''Coder API error: '' @ resp_statusText r) (resp_status r)
                    (BodyText (case resp_text r of None \<Rightarrow> [] | Some body \<Rightarrow> body)))
           else if resp_status r = 204 \<or> resp_content_length r = Some ''0'' then Inr None
           else (case resp_json r of None \<Rightarrow> Inl SyntaxError | Some j \<Rightarrow> Inr (Some j))),
      perform e (Fetch ep) w)"
  using request_eq [of e ep w] by (simp add: request_result)

lemmas run_simps = run_def resolveRun_def ensureTaskRunning_def getCoderUserByGitHubId_def
  getTemplateByOrganizationAndName_def getTemplateVersionPresets_def getTask_def createTask_def
  sendTaskInput_def commentOnIssue_def listComments_def createComment_def updateComment_def
  catch_def andThen_def lift_def succeed_def throw_def Let_def request_eval perform_def
  TaskNameSchema_parse_def selectPreset_def truthy_def createTaskRequest_def
  generateTaskUrl_def baseURL_def strip_trailing_slash_def before_query_or_fragment_def
  is_query_or_fragment_mark_def show_number

lemma mock_inputs_fields:
  "coderTaskPrompt mock_inputs = ''fix it''" "coderURL mock_inputs = ''https://h.test/?x=1#y''"
  "coderTemplateName mock_inputs = ''my-template''" "coderOrganization mock_inputs = ''default''"
  "githubIssueURL mock_inputs = ''https://github.com/acme/widgets/issues/42''"
  "coderTaskNamePrefix mock_inputs = ''gh''" "coderTemplatePreset mock_inputs = None"
  "commentOnIssueInput mock_inputs = True" "githubUserID mock_inputs = Some 12345"
  "coderUsername mock_inputs = None"
  by (simp_all add: mock_inputs_def)

lemmas mock_values = mock_env_def mock_fetch_def json_response_def no_content_def resp_ok_def
  mockUser_def mockTemplate_def mockTask_def mockPresets_def mock_request_def
  mock_inputs_fields mock_parseGithubIssueURL

lemma mock_run1: "run mock_env mock_inputs w0 = (Inr created_outputs, run1_world)"
  by (simp add: run_simps mock_values w0_def resolve_calls_def run1_world_def
      created_outputs_def)

lemma mock_run2:
  "run mock_env mock_inputs run1_world
     = (Inr (created_outputs\<lparr>out_taskCreated := False\<rparr>), run2_world)"
  by (simp add: run_simps mock_values resolve_calls_def run1_world_def run2_world_def
      created_outputs_def)

lemma resolveRun_after_user:
  "getCoderUserByGitHubId e (githubUserID inputs) w = (Inr user, w1)
   \<Longrightarrow> parseGithubIssueURL inputs = Inr (org, repo, n)
   \<Longrightarrow> coderTaskNamePrefix inputs \<noteq> [] \<Longrightarrow> githubIssueURL inputs \<noteq> []
   \<Longrightarrow> resolveRun e inputs w =
       andThen (getTemplateByOrganizationAndName e (coderOrganization inputs)
                  (coderTemplateName inputs)) (\<lambda>tmpl.
       andThen (getTemplateVersionPresets e (active_version_id tmpl)) (\<lambda>templateVersionPresets.
       andThen (lift (selectPreset (coderTemplatePreset inputs) templateVersionPresets)) (\<lambda>preset.
         succeed \<lparr>coderUser = user, githubOrg = org, githubRepo = repo,
                  githubIssueNumber = n,
                  taskName = coderTaskNamePrefix inputs @ ''-'' @ show_nat n,
                  template = tmpl, presetID = preset\<rparr>))) w1"
  by (simp add: resolveRun_def andThen_def lift_def succeed_def TaskNameSchema_parse_def)

lemma run_resolve_failed:
  "resolveRun e inputs w = (Inl err, w1) \<Longrightarrow> run e inputs w = (Inl err, w1)"
  by (simp add: run_def andThen_def)

lemma run_resolved:
  "resolveRun e inputs w = (Inr c, w1) \<Longrightarrow> run e inputs w = ensureTaskRunning e inputs c w1"
  by (simp add: run_def andThen_def)

text \<open>
  C5, as amended. A failure of a step of the run ends the run at once with this failure,
  in the world that the failing step left, so that no further step is made: the user
  resolution, the parsing of the issue URL, the check of the prefix, the template, the
  presets, the preset selection, the task lookup (a 404 response of the lookup is no
  failure but "no task"), the wait, the send and the create. \<open>main\<close> reports a failed
  run, or a failed validation, by one \<open>setFailed\<close> and sets no outputs. The issue
  comment is the exception: \<open>commentOnIssue\<close> never fails, it catches and logs the
  failures of its calls.
\<close>

theorem run_failures_abort:
  "(getCoderUserByGitHubId e (githubUserID inputs) w = (Inl err, w1) \<longrightarrow>
      run e inputs w = (Inl err, w1)) \<and>
   (getCoderUserByGitHubId e (githubUserID inputs) w = (Inr user, w1) \<and>
    parseGithubIssueURL inputs = Inl err \<longrightarrow> run e inputs w = (Inl err, w1)) \<and>
   (getCoderUserByGitHubId e (githubUserID inputs) w = (Inr user, w1) \<and>
    parseGithubIssueURL inputs = Inr (org, repo, n) \<and> coderTaskNamePrefix inputs = [] \<longrightarrow>
      run e inputs w =
        (Inl (PlainError ''either taskName or both taskNamePrefix and issueURL must be provided''),
         w1)) \<and>
   (getCoderUserByGitHubId e (githubUserID inputs) w = (Inr user, w1) \<and>
    parseGithubIssueURL inputs = Inr (org, repo, n) \<and> coderTaskNamePrefix inputs \<noteq> [] \<and>
    githubIssueURL inputs \<noteq> [] \<longrightarrow>
      (getTemplateByOrganizationAndName e (coderOrganization inputs) (coderTemplateName inputs) w1
         = (Inl err, w2) \<longrightarrow> run e inputs w = (Inl err, w2)) \<and>
      (getTemplateByOrganizationAndName e (coderOrganization inputs) (coderTemplateName inputs) w1
         = (Inr tmpl, w2) \<and>
       getTemplateVersionPresets e (active_version_id tmpl) w2 = (Inl err, w3) \<longrightarrow>
         run e inputs w = (Inl err, w3)) \<and>
      (getTemplateByOrganizationAndName e (coderOrganization inputs) (coderTemplateName inputs) w1
         = (Inr tmpl, w2) \<and>
       getTemplateVersionPresets e (active_version_id tmpl) w2 = (Inr presets, w3) \<and>
       selectPreset (coderTemplatePreset inputs) presets = Inl err \<longrightarrow>
         run e inputs w = (Inl err, w3))) \<and>
   (resolveRun e inputs w = (Inr c, w1) \<longrightarrow>
      (getTask e (username (coderUser c)) (taskName c) w1 = (Inl err, w2) \<longrightarrow>
         run e inputs w = (Inl err, w2)) \<and>
      (getTask e (username (coderUser c)) (taskName c) w1 = (Inr (Some t), w2) \<and>
       status t \<noteq> Active \<and>
       waitForTaskActive e (username (coderUser c)) (task_id t) 1200000 w2 = (Inl err, w3) \<longrightarrow>
         run e inputs w = (Inl err, w3)) \<and>
      (getTask e (username (coderUser c)) (taskName c) w1 = (Inr (Some t), w2) \<and>
       (if status t \<noteq> Active
        then waitForTaskActive e (username (coderUser c)) (task_id t) 1200000
        else succeed ()) w2 = (Inr (), w3) \<and>
       sendTaskInput e (username (coderUser c)) (task_id t) (coderTaskPrompt inputs) w3
         = (Inl err, w4) \<longrightarrow>
         run e inputs w = (Inl err, w4)) \<and>
      (getTask e (username (coderUser c)) (taskName c) w1 = (Inr None, w2) \<and>
       createTask e (username (coderUser c)) (createTaskRequest inputs c) w2 = (Inl err, w3) \<longrightarrow>
         run e inputs w = (Inl err, w3))) \<and>
   (ActionInputsSchema_accepts is_url inputs \<and> run e inputs w = (Inl err, w') \<longrightarrow>
      main is_url e inputs w = (SetFailed (failure_of err), w')) \<and>
   (\<not> ActionInputsSchema_accepts is_url inputs \<longrightarrow>
      main is_url e inputs w = (SetFailed (LibraryMessage ZodError), w)) \<and>
   fst (commentOnIssue e taskUrl owner repo n w) = Inr ()"
proof -
  have user: "run e inputs w = (Inl err, w1)"
    if "getCoderUserByGitHubId e (githubUserID inputs) w = (Inl err, w1)"
    using that by (simp add: run_def resolveRun_def andThen_def)
  have parse: "run e inputs w = (Inl err, w1)"
    if "getCoderUserByGitHubId e (githubUserID inputs) w = (Inr user, w1)"
      and "parseGithubIssueURL inputs = Inl err"
    using that by (simp add: run_def resolveRun_def andThen_def lift_def)
  have prefix: "run e inputs w =
        (Inl (PlainError ''either taskName or both taskNamePrefix and issueURL must be provided''),
         w1)"
    if "getCoderUserByGitHubId e (githubUserID inputs) w = (Inr user, w1)"
      and "parseGithubIssueURL inputs = Inr (org, repo, n)" and "coderTaskNamePrefix inputs = []"
    using that by (simp add: run_def resolveRun_def andThen_def lift_def throw_def)
  have tmpl: "(getTemplateByOrganizationAndName e (coderOrganization inputs) (coderTemplateName inputs) w1
         = (Inl err, w2) \<longrightarrow> run e inputs w = (Inl err, w2)) \<and>
      (getTemplateByOrganizationAndName e (coderOrganization inputs) (coderTemplateName inputs) w1
         = (Inr tmpl, w2) \<and>
       getTemplateVersionPresets e (active_version_id tmpl) w2 = (Inl err, w3) \<longrightarrow>
         run e inputs w = (Inl err, w3)) \<and>
      (getTemplateByOrganizationAndName e (coderOrganization inputs) (coderTemplateName inputs) w1
         = (Inr tmpl, w2) \<and>
       getTemplateVersionPresets e (active_version_id tmpl) w2 = (Inr presets, w3) \<and>
       selectPreset (coderTemplatePreset inputs) presets = Inl err \<longrightarrow>
         run e inputs w = (Inl err, w3))"
    if "getCoderUserByGitHubId e (githubUserID inputs) w = (Inr user, w1)"
      and "parseGithubIssueURL inputs = Inr (org, repo, n)"
      and "coderTaskNamePrefix inputs \<noteq> []" and "githubIssueURL inputs \<noteq> []"
    using resolveRun_after_user [OF that]
    by (simp add: run_def andThen_def lift_def)
  have ensure: "(getTask e (username (coderUser c)) (taskName c) w1 = (Inl err, w2) \<longrightarrow>
         run e inputs w = (Inl err, w2)) \<and>
      (getTask e (username (coderUser c)) (taskName c) w1 = (Inr (Some t), w2) \<and>
       status t \<noteq> Active \<and>
       waitForTaskActive e (username (coderUser c)) (task_id t) 1200000 w2 = (Inl err, w3) \<longrightarrow>
         run e inputs w = (Inl err, w3)) \<and>
      (getTask e (username (coderUser c)) (taskName c) w1 = (Inr (Some t), w2) \<and>
       (if status t \<noteq> Active
        then waitForTaskActive e (username (coderUser c)) (task_id t) 1200000
        else succeed ()) w2 = (Inr (), w3) \<and>
       sendTaskInput e (username (coderUser c)) (task_id t) (coderTaskPrompt inputs) w3
         = (Inl err, w4) \<longrightarrow>
         run e inputs w = (Inl err, w4)) \<and>
      (getTask e (username (coderUser c)) (taskName c) w1 = (Inr None, w2) \<and>
       createTask e (username (coderUser c)) (createTaskRequest inputs c) w2 = (Inl err, w3) \<longrightarrow>
         run e inputs w = (Inl err, w3))"
    if "resolveRun e inputs w = (Inr c, w1)"
    unfolding run_resolved [OF that]
    by (simp add: ensureTaskRunning_def andThen_def)
  have failed: "main is_url e inputs w = (SetFailed (failure_of err), w')"
    if "ActionInputsSchema_accepts is_url inputs" and "run e inputs w = (Inl err, w')"
    using that by (simp add: main_def)
  have invalid: "main is_url e inputs w = (SetFailed (LibraryMessage ZodError), w)"
    if "\<not> ActionInputsSchema_accepts is_url inputs"
    using that by (simp add: main_def)
  show ?thesis
    apply (intro conjI impI)
               apply (erule user)
              apply (elim conjE, erule (1) parse)
             apply (elim conjE, erule (2) prefix)
            apply (elim conjE, drule (3) tmpl, blast)
           apply (elim conjE, drule (3) tmpl, blast)
          apply (elim conjE, drule (3) tmpl, blast)
         apply (drule ensure, blast)
        apply (drule ensure, blast)
       apply (drule ensure, blast)
      apply (drule ensure, blast)
     apply (elim conjE, erule (1) failed)
    apply (erule invalid)
    apply (rule commentOnIssue_succeeds)
    done
qed

section \<open>Failures\<close>

lemmas step_eval = resolveRun_def ensureTaskRunning_def getCoderUserByGitHubId_def
  getTemplateByOrganizationAndName_def getTemplateVersionPresets_def getTask_def createTask_def
  sendTaskInput_def commentOnIssue_def listComments_def createComment_def updateComment_def
  catch_def andThen_def lift_def succeed_def throw_def Let_def request_eval perform_def
  TaskNameSchema_parse_def selectPreset_def truthy_def template_text_def createTaskRequest_def
  generateTaskUrl_def baseURL_def strip_trailing_slash_def before_query_or_fragment_def
  is_query_or_fragment_mark_def show_number getTaskById_def waitForTaskActive_def
  wait_loop.simps

lemmas env_values = github_down_def fails_on_def broken_task_def offline_def always_def
  error_response_def mock_values w0_def resolve_calls_def run1_world_def created_outputs_def
  mock_resolved_def

text \<open>
  C5 as stated fails: with the issue comments of GitHub out of reach, the listing of the
  comments fails, and the run ends well all the same, with its four outputs.
\<close>

theorem run_swallows_comment_failure:
  "fst (listComments github_down ''acme'' ''widgets'' 42
          \<lparr>clock = 25, trace = resolve_calls @ [Fetch (GetTasks ''testuser''),
                                               Fetch (PostTask ''testuser'' mock_request)]\<rparr>)
     = Inl RequestError \<and>
   main mock_is_url github_down mock_inputs w0 =
     (SetOutputs created_outputs,
      \<lparr>clock = 30, trace = resolve_calls @ [Fetch (GetTasks ''testuser''),
         Fetch (PostTask ''testuser'' mock_request), ListComments ''acme'' ''widgets'' 42]\<rparr>)"
proof -
  have "ActionInputsSchema_accepts mock_is_url mock_inputs"
    by (simp add: ActionInputsSchema_accepts_def WithGithubUserIDSchema_accepts_def
        BaseInputsSchema_accepts_def mock_is_url_def startsWith_def mock_inputs_def)
  moreover have "run github_down mock_inputs w0 =
     (Inr created_outputs,
      \<lparr>clock = 30, trace = resolve_calls @ [Fetch (GetTasks ''testuser''),
         Fetch (PostTask ''testuser'' mock_request), ListComments ''acme'' ''widgets'' 42]\<rparr>)"
    by (simp add: run_def step_eval env_values)
  ultimately show ?thesis
    by (simp add: main_def listComments_def github_down_def)
qed

section \<open>The issue comment on the concrete remote\<close>

theorem run_comments_after_create_only_witness:
  "run mock_env mock_inputs w0 = (Inr created_outputs, run1_world) \<and>
   \<not> only_calls (\<lambda>ev. \<not> is_github_event ev) w0 run1_world \<and>
   commentOnIssueInput mock_inputs \<and>
   (\<exists>c w1 w2 created w3.
      resolveRun mock_env mock_inputs w0 = (Inr c, w1) \<and>
      getTask mock_env (username (coderUser c)) (taskName c) w1 = (Inr None, w2) \<and>
      createTask mock_env (username (coderUser c)) (createTaskRequest mock_inputs c) w2
        = (Inr created, w3) \<and>
      only_calls (\<lambda>ev. \<not> is_github_event ev) w0 w3 \<and>
      only_calls is_github_event w3 run1_world) \<and>
   run mock_env mock_inputs run1_world
     = (Inr (created_outputs\<lparr>out_taskCreated := False\<rparr>), run2_world) \<and>
   only_calls (\<lambda>ev. \<not> is_github_event ev) run1_world run2_world"
proof -
  note shape = run_comments_after_create_only [OF mock_run1, THEN conjunct2]
  have loud: "\<not> only_calls (\<lambda>ev. \<not> is_github_event ev) w0 run1_world"
    by (simp add: only_calls_def w0_def run1_world_def resolve_calls_def)
  have created: "commentOnIssueInput mock_inputs \<and>
   (\<exists>c w1 w2 created w3.
      resolveRun mock_env mock_inputs w0 = (Inr c, w1) \<and>
      getTask mock_env (username (coderUser c)) (taskName c) w1 = (Inr None, w2) \<and>
      createTask mock_env (username (coderUser c)) (createTaskRequest mock_inputs c) w2
        = (Inr created, w3) \<and>
      only_calls (\<lambda>ev. \<not> is_github_event ev) w0 w3 \<and>
      only_calls is_github_event w3 run1_world)"
    using shape loud by blast
  let ?w50 = "\<lparr>clock = 50, trace = trace run1_world @ resolve_calls\<rparr>"
  have res2: "resolveRun mock_env mock_inputs run1_world = (Inr mock_resolved, ?w50)"
    by (simp add: step_eval env_values)
  have look2: "getTask mock_env (username (coderUser mock_resolved)) (taskName mock_resolved) ?w50
      = (Inr (Some (mockTask ''gh-42'' Active (Some Idle))),
         \<lparr>clock = 55, trace = trace run1_world @ resolve_calls @ [Fetch (GetTasks ''testuser'')]\<rparr>)"
    by (simp add: step_eval env_values)
  note quiet2 = run_comments_after_create_only [OF mock_run2, THEN conjunct1, rule_format,
      OF conjI [OF res2 look2], THEN conjunct1]
  show ?thesis using mock_run1 loud created mock_run2 quiet2 by blast
qed

section \<open>The two identity forms\<close>

text \<open>
  C6. The claim does not hold on the code. The schema accepts an input that gives the
  username and no GitHub user id, but \<open>run\<close> never reads the username: it resolves the
  user from the GitHub user id, which is absent, so the run fails at once, before any
  call, and \<open>main\<close> reports "GitHub user ID cannot be undefined".
\<close>

theorem run_ignores_coderUsername:
  assumes "WithCoderUsernameSchema_accepts is_url inputs"
  shows "ActionInputsSchema_accepts is_url inputs \<and>
         run e inputs w
           = (Inl (CoderAPIError ''GitHub user ID cannot be undefined'' 400 NoResponse), w) \<and>
         main is_url e inputs w
           = (SetFailed (Message ''GitHub user ID cannot be undefined''), w)"
proof -
  have none: "githubUserID inputs = None"
    using assms by (simp add: WithCoderUsernameSchema_accepts_def)
  have ok: "ActionInputsSchema_accepts is_url inputs"
    using assms by (simp add: ActionInputsSchema_accepts_def)
  have "run e inputs w
      = (Inl (CoderAPIError ''GitHub user ID cannot be undefined'' 400 NoResponse), w)"
    using none by (simp add: run_def resolveRun_def andThen_def getCoderUserByGitHubId_unset)
  then show ?thesis using ok by (simp add: main_def)
qed

theorem run_ignores_coderUsername_witness:
  "WithCoderUsernameSchema_accepts mock_is_url username_inputs \<and>
   coderUsername username_inputs = Some ''testuser'' \<and>
   main mock_is_url mock_env username_inputs w0
     = (SetFailed (Message ''GitHub user ID cannot be undefined''), w0)"
proof -
  have a: "WithCoderUsernameSchema_accepts mock_is_url username_inputs"
    by (simp add: WithCoderUsernameSchema_accepts_def BaseInputsSchema_accepts_def
        username_inputs_def mock_inputs_def mock_is_url_def startsWith_def)
  show ?thesis using a run_ignores_coderUsername [OF a, of mock_env w0]
    by (simp add: username_inputs_def)
qed

section \<open>Failures on the concrete remote\<close>

lemmas parse_eval = parseGithubIssueURL_def match_at_def not_slash_def is_digit_def
  startsWith_def parseInt_def digit_value_def task_error_def

theorem run_failures_abort_witness:
  "run offline mock_inputs w0
      = (Inl TypeError,
         \<lparr>clock = 5, trace = [Fetch (GetUsersByGitHubId 12345)]\<rparr>) \<and>
   run mock_env (mock_inputs\<lparr>githubIssueURL := ''https://github.com''\<rparr>) w0
       = (Inl (PlainError ''Invalid issue URL: https://github.com''),
          \<lparr>clock = 5, trace = [Fetch (GetUsersByGitHubId 12345)]\<rparr>) \<and>
   run mock_env (mock_inputs\<lparr>coderTaskNamePrefix := []\<rparr>) w0
       = (Inl (PlainError ''either taskName or both taskNamePrefix and issueURL must be provided''),
          \<lparr>clock = 5, trace = [Fetch (GetUsersByGitHubId 12345)]\<rparr>) \<and>
   run (fails_on is_template_request) mock_inputs w0
       = (Inl (CoderAPIError ''Coder API error: Internal Server Error'' 500 (BodyText [])),
          \<lparr>clock = 10, trace = [Fetch (GetUsersByGitHubId 12345),
           Fetch (GetTemplate ''default'' ''my-template'')]\<rparr>) \<and>
   run (fails_on is_presets_request) mock_inputs w0
       = (Inl (CoderAPIError ''Coder API error: Internal Server Error'' 500 (BodyText [])),
          \<lparr>clock = 15, trace = resolve_calls\<rparr>) \<and>
   run mock_env (mock_inputs\<lparr>coderTemplatePreset := Some ''huge''\<rparr>) w0
       = (Inl (PlainError ''Preset huge not found''),
          \<lparr>clock = 15, trace = resolve_calls\<rparr>) \<and>
   run (fails_on is_tasks_request) mock_inputs w0
       = (Inl (CoderAPIError ''Coder API error: Internal Server Error'' 500 (BodyText [])),
          \<lparr>clock = 20, trace = resolve_calls @ [Fetch (GetTasks ''testuser'')]\<rparr>) \<and>
   run broken_task mock_inputs w0
       = (Inl (task_error (mockTask ''gh-42'' Error None)),
          \<lparr>clock = 25, trace = resolve_calls @ [Fetch (GetTasks ''testuser''),
           Fetch (GetTaskById ''testuser'' ''id-gh-42'')]\<rparr>) \<and>
   run (fails_on is_send_request) mock_inputs run1_world
       = (Inl (CoderAPIError ''Coder API error: Internal Server Error'' 500 (BodyText [])),
          \<lparr>clock = 60, trace = trace run1_world @ resolve_calls @ [Fetch (GetTasks ''testuser''),
           Fetch (PostTaskSend ''testuser'' ''id-gh-42'' ''fix it'')]\<rparr>) \<and>
   run (fails_on is_create_request) mock_inputs w0
       = (Inl (CoderAPIError ''Coder API error: Internal Server Error'' 500 (BodyText [])),
          \<lparr>clock = 25, trace = resolve_calls @ [Fetch (GetTasks ''testuser''),
           Fetch (PostTask ''testuser'' mock_request)]\<rparr>) \<and>
   main mock_is_url offline mock_inputs w0
       = (SetFailed (LibraryMessage TypeError),
          \<lparr>clock = 5, trace = [Fetch (GetUsersByGitHubId 12345)]\<rparr>) \<and>
   main mock_is_url mock_env (mock_inputs\<lparr>coderUsername := Some ''testuser''\<rparr>) w0
       = (SetFailed (LibraryMessage ZodError), w0) \<and>
   fst (commentOnIssue github_down ''https://h.test/tasks/testuser/id-gh-42'' ''acme'' ''widgets'' 42 w0) = Inr ()"
proof -
  have user: "run offline mock_inputs w0
      = (Inl TypeError,
         \<lparr>clock = 5, trace = [Fetch (GetUsersByGitHubId 12345)]\<rparr>)"
    using run_failures_abort [where e = offline
        and inputs = mock_inputs
        and w = w0
        and err = TypeError
        and ?w1.0 = "\<lparr>clock = 5, trace = [Fetch (GetUsersByGitHubId 12345)]\<rparr>",
        THEN conjunct1]
    by (simp add: step_eval env_values parse_eval)
  have parse: "run mock_env (mock_inputs\<lparr>githubIssueURL := ''https://github.com''\<rparr>) w0
      = (Inl (PlainError ''Invalid issue URL: https://github.com''),
         \<lparr>clock = 5, trace = [Fetch (GetUsersByGitHubId 12345)]\<rparr>)"
    using run_failures_abort [where e = mock_env
        and inputs = "(mock_inputs\<lparr>githubIssueURL := ''https://github.com''\<rparr>)"
        and w = w0
        and err = "PlainError ''Invalid issue URL: https://github.com''"
        and ?w1.0 = "\<lparr>clock = 5, trace = [Fetch (GetUsersByGitHubId 12345)]\<rparr>"
        and user = mockUser,
        THEN conjunct2, THEN conjunct1]
    by (simp add: step_eval env_values parse_eval)
  have prefix: "run mock_env (mock_inputs\<lparr>coderTaskNamePrefix := []\<rparr>) w0
      = (Inl (PlainError ''either taskName or both taskNamePrefix and issueURL must be provided''),
         \<lparr>clock = 5, trace = [Fetch (GetUsersByGitHubId 12345)]\<rparr>)"
    using run_failures_abort [where e = mock_env
        and inputs = "(mock_inputs\<lparr>coderTaskNamePrefix := []\<rparr>)"
        and w = w0
        and ?w1.0 = "\<lparr>clock = 5, trace = [Fetch (GetUsersByGitHubId 12345)]\<rparr>"
        and user = mockUser
        and org = "''acme''"
        and repo = "''widgets''"
        and n = 42,
        THEN conjunct2, THEN conjunct2, THEN conjunct1]
    by (simp add: step_eval env_values parse_eval)
  have tmpl: "run (fails_on is_template_request) mock_inputs w0
      = (Inl (CoderAPIError ''Coder API error: Internal Server Error'' 500 (BodyText [])),
         \<lparr>clock = 10, trace = [Fetch (GetUsersByGitHubId 12345),
          Fetch (GetTemplate ''default'' ''my-template'')]\<rparr>)"
    using run_failures_abort [where e = "fails_on is_template_request"
        and inputs = mock_inputs
        and err = "CoderAPIError ''Coder API error: Internal Server Error'' 500 (BodyText [])"
        and ?w2.0 = "\<lparr>clock = 10, trace = [Fetch (GetUsersByGitHubId 12345),
            Fetch (GetTemplate ''default'' ''my-template'')]\<rparr>"
        and user = mockUser
        and org = "''acme''"
        and repo = "''widgets''"
        and n = 42
        and w = w0
        and ?w1.0 = "\<lparr>clock = 5, trace = [Fetch (GetUsersByGitHubId 12345)]\<rparr>",
        THEN conjunct2, THEN conjunct2, THEN conjunct2, THEN conjunct1]
    by (simp add: step_eval env_values parse_eval)
  have presets: "run (fails_on is_presets_request) mock_inputs w0
      = (Inl (CoderAPIError ''Coder API error: Internal Server Error'' 500 (BodyText [])),
         \<lparr>clock = 15, trace = resolve_calls\<rparr>)"
    using run_failures_abort [where e = "fails_on is_presets_request"
        and inputs = mock_inputs
        and err = "CoderAPIError ''Coder API error: Internal Server Error'' 500 (BodyText [])"
        and ?w2.0 = "\<lparr>clock = 10, trace = [Fetch (GetUsersByGitHubId 12345),
            Fetch (GetTemplate ''default'' ''my-template'')]\<rparr>"
        and ?w3.0 = "\<lparr>clock = 15, trace = resolve_calls\<rparr>"
        and tmpl = mockTemplate
        and user = mockUser
        and org = "''acme''"
        and repo = "''widgets''"
        and n = 42
        and w = w0
        and ?w1.0 = "\<lparr>clock = 5, trace = [Fetch (GetUsersByGitHubId 12345)]\<rparr>",
        THEN conjunct2, THEN conjunct2, THEN conjunct2, THEN conjunct1]
    by (simp add: step_eval env_values parse_eval)
  have select: "run mock_env (mock_inputs\<lparr>coderTemplatePreset := Some ''huge''\<rparr>) w0
      = (Inl (PlainError ''Preset huge not found''),
         \<lparr>clock = 15, trace = resolve_calls\<rparr>)"
    using run_failures_abort [where e = mock_env
        and inputs = "(mock_inputs\<lparr>coderTemplatePreset := Some ''huge''\<rparr>)"
        and err = "PlainError ''Preset huge not found''"
        and ?w2.0 = "\<lparr>clock = 10, trace = [Fetch (GetUsersByGitHubId 12345),
            Fetch (GetTemplate ''default'' ''my-template'')]\<rparr>"
        and ?w3.0 = "\<lparr>clock = 15, trace = resolve_calls\<rparr>"
        and tmpl = mockTemplate
        and presets = mockPresets
        and user = mockUser
        and org = "''acme''"
        and repo = "''widgets''"
        and n = 42
        and w = w0
        and ?w1.0 = "\<lparr>clock = 5, trace = [Fetch (GetUsersByGitHubId 12345)]\<rparr>",
        THEN conjunct2, THEN conjunct2, THEN conjunct2, THEN conjunct1]
    by (simp add: step_eval env_values parse_eval)
  have lookup: "run (fails_on is_tasks_request) mock_inputs w0
      = (Inl (CoderAPIError ''Coder API error: Internal Server Error'' 500 (BodyText [])),
         \<lparr>clock = 20, trace = resolve_calls @ [Fetch (GetTasks ''testuser'')]\<rparr>)"
    using run_failures_abort [where e = "fails_on is_tasks_request"
        and w = w0
        and ?w1.0 = "\<lparr>clock = 15, trace = resolve_calls\<rparr>"
        and err = "CoderAPIError ''Coder API error: Internal Server Error'' 500 (BodyText [])"
        and ?w2.0 = "\<lparr>clock = 20, trace = resolve_calls @ [Fetch (GetTasks ''testuser'')]\<rparr>"
        and inputs = mock_inputs
        and c = mock_resolved,
        THEN conjunct2, THEN conjunct2, THEN conjunct2, THEN conjunct2, THEN conjunct1]
    by (simp add: step_eval env_values parse_eval)
  have wait: "run broken_task mock_inputs w0
      = (Inl (task_error (mockTask ''gh-42'' Error None)),
         \<lparr>clock = 25, trace = resolve_calls @ [Fetch (GetTasks ''testuser''),
          Fetch (GetTaskById ''testuser'' ''id-gh-42'')]\<rparr>)"
    using run_failures_abort [where e = broken_task
        and w = w0
        and ?w1.0 = "\<lparr>clock = 15, trace = resolve_calls\<rparr>"
        and err = "task_error (mockTask ''gh-42'' Error None)"
        and ?w2.0 = "\<lparr>clock = 20, trace = resolve_calls @ [Fetch (GetTasks ''testuser'')]\<rparr>"
        and ?w3.0 = "\<lparr>clock = 25, trace = resolve_calls @ [Fetch (GetTasks ''testuser''),
            Fetch (GetTaskById ''testuser'' ''id-gh-42'')]\<rparr>"
        and t = "mockTask ''gh-42'' Error None"
        and inputs = mock_inputs
        and c = mock_resolved,
        THEN conjunct2, THEN conjunct2, THEN conjunct2, THEN conjunct2, THEN conjunct1]
    by (simp add: step_eval env_values parse_eval)
  have send: "run (fails_on is_send_request) mock_inputs run1_world
      = (Inl (CoderAPIError ''Coder API error: Internal Server Error'' 500 (BodyText [])),
         \<lparr>clock = 60, trace = trace run1_world @ resolve_calls @ [Fetch (GetTasks ''testuser''),
          Fetch (PostTaskSend ''testuser'' ''id-gh-42'' ''fix it'')]\<rparr>)"
    using run_failures_abort [where e = "fails_on is_send_request"
        and w = run1_world
        and ?w1.0 = "\<lparr>clock = 50, trace = trace run1_world @ resolve_calls\<rparr>"
        and err = "CoderAPIError ''Coder API error: Internal Server Error'' 500 (BodyText [])"
        and ?w2.0 = "\<lparr>clock = 55, trace = trace run1_world @ resolve_calls @ [Fetch (GetTasks ''testuser'')]\<rparr>"
        and ?w3.0 = "\<lparr>clock = 55, trace = trace run1_world @ resolve_calls @ [Fetch (GetTasks ''testuser'')]\<rparr>"
        and ?w4.0 = "\<lparr>clock = 60, trace = trace run1_world @ resolve_calls @ [Fetch (GetTasks ''testuser''),
            Fetch (PostTaskSend ''testuser'' ''id-gh-42'' ''fix it'')]\<rparr>"
        and t = "mockTask ''gh-42'' Active (Some Idle)"
        and inputs = mock_inputs
        and c = mock_resolved,
        THEN conjunct2, THEN conjunct2, THEN conjunct2, THEN conjunct2, THEN conjunct1]
    by (simp add: step_eval env_values parse_eval)
  have create: "run (fails_on is_create_request) mock_inputs w0
      = (Inl (CoderAPIError ''Coder API error: Internal Server Error'' 500 (BodyText [])),
         \<lparr>clock = 25, trace = resolve_calls @ [Fetch (GetTasks ''testuser''),
          Fetch (PostTask ''testuser'' mock_request)]\<rparr>)"
    using run_failures_abort [where e = "fails_on is_create_request"
        and w = w0
        and ?w1.0 = "\<lparr>clock = 15, trace = resolve_calls\<rparr>"
        and err = "CoderAPIError ''Coder API error: Internal Server Error'' 500 (BodyText [])"
        and ?w2.0 = "\<lparr>clock = 20, trace = resolve_calls @ [Fetch (GetTasks ''testuser'')]\<rparr>"
        and ?w3.0 = "\<lparr>clock = 25, trace = resolve_calls @ [Fetch (GetTasks ''testuser''),
            Fetch (PostTask ''testuser'' mock_request)]\<rparr>"
        and inputs = mock_inputs
        and c = mock_resolved,
        THEN conjunct2, THEN conjunct2, THEN conjunct2, THEN conjunct2, THEN conjunct1]
    by (simp add: step_eval env_values parse_eval)
  have accepted: "ActionInputsSchema_accepts mock_is_url mock_inputs"
    by (simp add: ActionInputsSchema_accepts_def WithGithubUserIDSchema_accepts_def
        BaseInputsSchema_accepts_def mock_is_url_def startsWith_def mock_inputs_def)
  have reported: "main mock_is_url offline mock_inputs w0
      = (SetFailed (LibraryMessage TypeError),
         \<lparr>clock = 5, trace = [Fetch (GetUsersByGitHubId 12345)]\<rparr>)"
    using run_failures_abort [where is_url = mock_is_url and e = offline and inputs = mock_inputs
       
            and w = w0
            and err = TypeError
            and w' = "\<lparr>clock = 5, trace = [Fetch (GetUsersByGitHubId 12345)]\<rparr>",
        THEN conjunct2,
            THEN conjunct2, THEN conjunct2, THEN conjunct2, THEN conjunct2, THEN conjunct1] accepted user
    by simp
  have invalid: "main mock_is_url mock_env (mock_inputs\<lparr>coderUsername := Some ''testuser''\<rparr>) w0
      = (SetFailed (LibraryMessage ZodError), w0)"
    using run_failures_abort [where is_url = mock_is_url
        and e = mock_env
        and inputs = "(mock_inputs\<lparr>coderUsername := Some ''testuser''\<rparr>)"
       
            and w = w0,
            THEN conjunct2, THEN conjunct2, THEN conjunct2, THEN conjunct2, THEN conjunct2, THEN conjunct2, THEN conjunct1]
    by (simp add: ActionInputsSchema_accepts_def WithGithubUserIDSchema_accepts_def
        WithCoderUsernameSchema_accepts_def mock_inputs_def)
  have swallowed: "fst (commentOnIssue github_down ''https://h.test/tasks/testuser/id-gh-42'' ''acme'' ''widgets'' 42 w0) = Inr ()"
    using run_failures_abort [where e = github_down
        and w = w0,
        THEN conjunct2, THEN conjunct2, THEN conjunct2, THEN conjunct2, THEN conjunct2, THEN conjunct2, THEN conjunct2] by simp
  show ?thesis
    using user parse prefix tmpl presets select lookup wait send create reported invalid swallowed by (intro conjI)
qed

end
